theory Spec2Isabelle
  imports Main
begin

section \<open>The CTC decoder of SenseVoice.cpp (sense-voice-decoder.cc)\<close>

text \<open>
  The file under verification builds a four-operation ggml graph (projection, bias,
  softmax, arg-max), runs it on a backend scheduler and turns the arg-max ids into text.
  The tensor library (ggml) is an external collaborator: its primitives are modelled here
  at the level the decoder uses them (shapes, strides, operation tags, source links and
  the assertions that abort the process), the decoder's own functions are translated
  line by line.
\<close>

subsection \<open>Errors\<close>

text \<open>
  A failed \<open>GGML_ASSERT\<close> aborts the process; an integer division traps when the
  divisor is zero or when the quotient overflows (\<open>INT64_MIN / -1\<close>, the same for
  \<open>%\<close>); a null-pointer dereference and an array read at index \<open>-1\<close> end the
  process as well: all are outcomes of the model, never silently mapped to a value.
\<close>

datatype error = Assert_failed | Division_trap | Null_pointer | Out_of_bounds

subsection \<open>C integer division\<close>

text \<open>
  \<open>/\<close> and \<open>%\<close> of C++ truncate towards zero; HOL's \<open>div\<close> and \<open>mod\<close> round
  down. On 64-bit operands both trap for a zero divisor and for \<open>INT64_MIN\<close> with the
  divisor \<open>-1\<close>; \<open>c_div_traps\<close> says so, and every division of the model checks it
  first.
\<close>

definition c_div_traps :: "int \<Rightarrow> int \<Rightarrow> bool" where
  "c_div_traps a b \<longleftrightarrow> b = 0 \<or> (a = - (2 ^ 63) \<and> b = - 1)"

definition c_div :: "int \<Rightarrow> int \<Rightarrow> int" where
  "c_div a b = sgn a * sgn b * (\<bar>a\<bar> div \<bar>b\<bar>)"

definition c_mod :: "int \<Rightarrow> int \<Rightarrow> int" where
  "c_mod a b = a - b * c_div a b"

text \<open>
  A conjunction \<open>a1 % b1 == 0 && a2 % b2 == 0 && ...\<close> as C evaluates it, left to right
  and only as far as needed: \<open>None\<close> when a division that is reached traps.
\<close>

fun rem_chain :: "(int \<times> int) list \<Rightarrow> bool option" where
  "rem_chain [] = Some True"
| "rem_chain ((a, b) # rest) =
     (if c_div_traps a b then None
      else if c_mod a b = 0 then rem_chain rest
      else Some False)"

text \<open>
  \<open>int64_t\<close> arithmetic that leaves the range wraps around in the compiled code; the
  model writes the wrap-around out.
\<close>

definition int64_wrap :: "int \<Rightarrow> int" where
  "int64_wrap x = (x + 2 ^ 63) mod 2 ^ 64 - 2 ^ 63"

subsection \<open>Tensors\<close>

text \<open>
  The element types of ggml that store one element per block, so that an element has a
  byte offset. The block-quantised types, which pack 32 or 256 elements into one block,
  are not modelled.
\<close>

datatype ggml_type =
    GGML_TYPE_F32 | GGML_TYPE_F16 | GGML_TYPE_BF16 | GGML_TYPE_F64
  | GGML_TYPE_I8 | GGML_TYPE_I16 | GGML_TYPE_I32 | GGML_TYPE_I64

datatype ggml_op =
    GGML_OP_NONE | GGML_OP_ADD | GGML_OP_MUL_MAT | GGML_OP_SOFT_MAX
  | GGML_OP_ARGMAX | GGML_OP_VIEW

text \<open>
  The identity of a tensor object (its address): an object of the long-lived model
  context, of the session, or the \<open>n\<close>-th object created in the per-call graph context.
\<close>

datatype taddr = Model_obj nat | State_obj nat | Ctx_obj nat

text \<open>
  \<open>struct ggml_tensor\<close>: the fields the decoder reads. \<open>ne\<close> are the element counts
  and \<open>nb\<close> the strides in bytes of the four dimensions (\<open>int64_t\<close> and \<open>size_t\<close>
  in C; the products of dimensions and strides that ggml forms are taken not to
  overflow), \<open>src\<close> the non-null source links in order.
  \<open>is_param\<close> says that the tensor carries a gradient (a trainable parameter).
  The input and output flags are set through the pointer after the tensor has been
  linked into other tensors, so they live in the context, keyed by the address.
\<close>

datatype ggml_tensor = Tensor
  (addr: taddr) (ttype: ggml_type) (op: ggml_op)
  (ne0: int) (ne1: int) (ne2: int) (ne3: int)
  (nb0: int) (nb1: int) (nb2: int) (nb3: int)
  (src: "ggml_tensor list") (view_offs: int) (is_param: bool) (tname: string)

definition ggml_type_size :: "ggml_type \<Rightarrow> int" where
  "ggml_type_size t =
     (case t of
        GGML_TYPE_F32 \<Rightarrow> 4 | GGML_TYPE_F16 \<Rightarrow> 2 | GGML_TYPE_BF16 \<Rightarrow> 2 | GGML_TYPE_F64 \<Rightarrow> 8
      | GGML_TYPE_I8 \<Rightarrow> 1 | GGML_TYPE_I16 \<Rightarrow> 2 | GGML_TYPE_I32 \<Rightarrow> 4 | GGML_TYPE_I64 \<Rightarrow> 8)"

definition ggml_nelements :: "ggml_tensor \<Rightarrow> int" where
  "ggml_nelements t = ne0 t * ne1 t * ne2 t * ne3 t"

text \<open>
  \<open>struct ggml_context\<close> over the session's meta buffer: the number of objects created
  so far, and the flags of its tensors. The byte capacity of the arena is not modelled.
\<close>

record ggml_context =
  n_objects :: nat
  inputs :: "taddr list"
  outputs :: "taddr list"

definition ggml_init :: "ggml_context" where
  "ggml_init = \<lparr>n_objects = 0, inputs = [], outputs = []\<rparr>"

text \<open>
  Modelled from the spec: ggml's tensor constructors are not under src/. A new tensor is
  contiguous: \<open>nb[0]\<close> is the element size and \<open>nb[i] = nb[i-1] * ne[i-1]\<close>.
\<close>

definition ggml_new_tensor ::
  "ggml_context \<Rightarrow> ggml_type \<Rightarrow> ggml_op \<Rightarrow> int \<Rightarrow> int \<Rightarrow> int \<Rightarrow> int \<Rightarrow>
    ggml_tensor list \<Rightarrow> int \<Rightarrow> ggml_context \<times> ggml_tensor" where
  "ggml_new_tensor ctx ty opr n0 n1 n2 n3 srcs offs =
     (let ts = ggml_type_size ty in
      (ctx\<lparr>n_objects := Suc (n_objects ctx)\<rparr>,
       Tensor (Ctx_obj (n_objects ctx)) ty opr n0 n1 n2 n3
         ts (ts * n0) (ts * n0 * n1) (ts * n0 * n1 * n2) srcs offs False []))"

definition ggml_new_tensor_2d ::
  "ggml_context \<Rightarrow> ggml_type \<Rightarrow> int \<Rightarrow> int \<Rightarrow> ggml_context \<times> ggml_tensor" where
  "ggml_new_tensor_2d ctx ty n0 n1 = ggml_new_tensor ctx ty GGML_OP_NONE n0 n1 1 1 [] 0"

text \<open>
  Modelled from the spec: \<open>ggml_view_3d(ctx, a, ne0, ne1, ne2, nb1, nb2, offset)\<close>, a
  three-dimensional window into \<open>a\<close>'s data starting \<open>offset\<close> bytes in, with the given
  row and plane strides; \<open>nb[0]\<close> is the element size and \<open>nb[3] = nb[2] * ne[2]\<close>.
\<close>

definition ggml_view_3d ::
  "ggml_context \<Rightarrow> ggml_tensor \<Rightarrow> int \<Rightarrow> int \<Rightarrow> int \<Rightarrow> int \<Rightarrow> int \<Rightarrow> int \<Rightarrow>
    ggml_context \<times> ggml_tensor" where
  "ggml_view_3d ctx a n0 n1 n2 b1 b2 offset =
     (ctx\<lparr>n_objects := Suc (n_objects ctx)\<rparr>,
      Tensor (Ctx_obj (n_objects ctx)) (ttype a) GGML_OP_VIEW n0 n1 n2 1
        (ggml_type_size (ttype a)) b1 b2 (b2 * n2) [a] offset False [])"

text \<open>
  Modelled from the spec: \<open>ggml_mul_mat(ctx, a, b)\<close> contracts dimension 0 of both
  operands. It asserts \<open>ggml_can_mul_mat\<close> (equal dimension 0, \<open>b\<close>'s dimensions 2 and 3
  multiples of \<open>a\<close>'s) and that \<open>a\<close> is not transposed; the result is a new F32 tensor
  of shape \<open>[a.ne1, b.ne1, b.ne2, b.ne3]\<close>. The three conditions of \<open>ggml_can_mul_mat\<close>
  are evaluated left to right, so a division traps only when the conditions before it
  hold.
\<close>

definition ggml_can_mul_mat :: "ggml_tensor \<Rightarrow> ggml_tensor \<Rightarrow> bool option" where
  "ggml_can_mul_mat t0 t1 =
     (if ne0 t0 = ne0 t1 then rem_chain [(ne2 t1, ne2 t0), (ne3 t1, ne3 t0)] else Some False)"

definition ggml_is_transposed :: "ggml_tensor \<Rightarrow> bool" where
  "ggml_is_transposed t \<longleftrightarrow> nb0 t > nb1 t"

definition ggml_mul_mat ::
  "ggml_context \<Rightarrow> ggml_tensor \<Rightarrow> ggml_tensor \<Rightarrow> error + ggml_context \<times> ggml_tensor" where
  "ggml_mul_mat ctx a b =
     (case ggml_can_mul_mat a b of
        None \<Rightarrow> Inl Division_trap
      | Some False \<Rightarrow> Inl Assert_failed
      | Some True \<Rightarrow>
          if ggml_is_transposed a then Inl Assert_failed
          else Inr (ggml_new_tensor ctx GGML_TYPE_F32 GGML_OP_MUL_MAT
                      (ne1 a) (ne1 b) (ne2 b) (ne3 b) [a, b] 0))"

text \<open>
  Modelled from the spec: \<open>ggml_add(ctx, a, b)\<close> asserts that \<open>b\<close> can be repeated
  (broadcast) to \<open>a\<close>'s shape and returns a new tensor of \<open>a\<close>'s type and shape.
\<close>

definition ggml_can_repeat :: "ggml_tensor \<Rightarrow> ggml_tensor \<Rightarrow> bool option" where
  "ggml_can_repeat t0 t1 =
     (if ne0 t0 = 0 \<or> ne1 t0 = 0 \<or> ne2 t0 = 0 \<or> ne3 t0 = 0
      then Some (ne0 t1 = 0 \<or> ne1 t1 = 0 \<or> ne2 t1 = 0 \<or> ne3 t1 = 0)
      else rem_chain [(ne0 t1, ne0 t0), (ne1 t1, ne1 t0), (ne2 t1, ne2 t0), (ne3 t1, ne3 t0)])"

definition ggml_add ::
  "ggml_context \<Rightarrow> ggml_tensor \<Rightarrow> ggml_tensor \<Rightarrow> error + ggml_context \<times> ggml_tensor" where
  "ggml_add ctx a b =
     (case ggml_can_repeat b a of
        None \<Rightarrow> Inl Division_trap
      | Some False \<Rightarrow> Inl Assert_failed
      | Some True \<Rightarrow>
          Inr (ggml_new_tensor ctx (ttype a) GGML_OP_ADD
                 (ne0 a) (ne1 a) (ne2 a) (ne3 a) [a, b] 0))"

subsection \<open>The padded matrix multiplication\<close>

text \<open>
  \<open>ggml_mul_mat_pad\<close> (lines 48-66). The guard divides by \<open>pad\<close> first, so a
  trapping division ends the call before anything is built. The four views are created in the source's order,
  then the two products (the arguments of \<open>ggml_add\<close>; their relative order of
  evaluation is the compiler's choice, the model takes left to right), then the sum.
\<close>

definition n_pad_req :: int where
  "n_pad_req = 8"

text \<open>
  The condition of line 53, as C evaluates it: \<open>None\<close> when the division traps, that
  is for \<open>pad = 0\<close> and for \<open>ne[0] = INT64_MIN\<close> with \<open>pad = -1\<close>. (\<open>pad\<close> is an
  \<open>int\<close>, converted to 64 bits for the division.)
\<close>

definition pad_fallback :: "ggml_tensor \<Rightarrow> int \<Rightarrow> bool option" where
  "pad_fallback x pad =
     (if c_div_traps (ne0 x) pad then None
      else Some (c_mod (ne0 x) pad = 0 \<or> c_div (ne0 x) pad < n_pad_req))"

definition ggml_mul_mat_pad ::
  "ggml_context \<Rightarrow> ggml_tensor \<Rightarrow> ggml_tensor \<Rightarrow> int \<Rightarrow> error + ggml_context \<times> ggml_tensor" where
  "ggml_mul_mat_pad ctx x y pad =
     (case pad_fallback x pad of
        None \<Rightarrow> Inl Division_trap
      | Some True \<Rightarrow> ggml_mul_mat ctx x y
      | Some False \<Rightarrow>
         (let (c1, x_0) = ggml_view_3d ctx x (c_div (ne0 x) pad * pad) (ne1 x) (ne2 x) (nb1 x) (nb2 x) 0;
              (c2, x_1) = ggml_view_3d c1 x (c_mod (ne0 x) pad) (ne1 x) (ne2 x) (nb1 x) (nb2 x)
                            (ne0 x_0 * nb0 x_0);
              (c3, y_0) = ggml_view_3d c2 y (c_div (ne0 y) pad * pad) (ne1 y) (ne2 y) (nb1 y) (nb2 y) 0;
              (c4, y_1) = ggml_view_3d c3 y (c_mod (ne0 y) pad) (ne1 y) (ne2 y) (nb1 y) (nb2 y)
                            (ne0 y_0 * nb0 y_0)
          in (case ggml_mul_mat c4 x_0 y_0 of
                Inl e \<Rightarrow> Inl e
              | Inr (c5, p0) \<Rightarrow>
                  (case ggml_mul_mat c5 x_1 y_1 of
                     Inl e \<Rightarrow> Inl e
                   | Inr (c6, p1) \<Rightarrow> ggml_add c6 p0 p1))))"

subsection \<open>Softmax, arg-max, names and flags\<close>

text \<open>
  Modelled from the spec: \<open>ggml_soft_max\<close> asserts a contiguous operand and returns a
  tensor of the same type and shape; \<open>ggml_argmax\<close> asserts a matrix (\<open>ne2 = ne3 = 1\<close>)
  and returns a one-dimensional I32 tensor with one entry per row (\<open>ne0 = a.ne1\<close>).
\<close>

definition ggml_is_contiguous :: "ggml_tensor \<Rightarrow> bool" where
  "ggml_is_contiguous t \<longleftrightarrow>
     nb0 t = ggml_type_size (ttype t) \<and> nb1 t = nb0 t * ne0 t \<and>
     nb2 t = nb1 t * ne1 t \<and> nb3 t = nb2 t * ne2 t"

definition ggml_soft_max ::
  "ggml_context \<Rightarrow> ggml_tensor \<Rightarrow> error + ggml_context \<times> ggml_tensor" where
  "ggml_soft_max ctx a =
     (if \<not> ggml_is_contiguous a then Inl Assert_failed
      else Inr (ggml_new_tensor ctx (ttype a) GGML_OP_SOFT_MAX
                  (ne0 a) (ne1 a) (ne2 a) (ne3 a) [a] 0))"

definition ggml_is_matrix :: "ggml_tensor \<Rightarrow> bool" where
  "ggml_is_matrix t \<longleftrightarrow> ne2 t = 1 \<and> ne3 t = 1"

definition ggml_argmax ::
  "ggml_context \<Rightarrow> ggml_tensor \<Rightarrow> error + ggml_context \<times> ggml_tensor" where
  "ggml_argmax ctx a =
     (if \<not> ggml_is_matrix a then Inl Assert_failed
      else Inr (ggml_new_tensor ctx GGML_TYPE_I32 GGML_OP_ARGMAX (ne1 a) 1 1 1 [a] 0))"

text \<open>
  \<open>ggml_set_name\<close> is called on a tensor that nothing else points to yet, so the
  renamed tensor is returned; \<open>ggml_set_input\<close> and \<open>ggml_set_output\<close> record the
  flag under the tensor's address.
\<close>

definition ggml_set_name :: "ggml_tensor \<Rightarrow> string \<Rightarrow> ggml_tensor" where
  "ggml_set_name t n =
     Tensor (addr t) (ttype t) (op t) (ne0 t) (ne1 t) (ne2 t) (ne3 t)
       (nb0 t) (nb1 t) (nb2 t) (nb3 t) (src t) (view_offs t) (is_param t) n"

definition ggml_set_input :: "ggml_context \<Rightarrow> ggml_tensor \<Rightarrow> ggml_context" where
  "ggml_set_input ctx t = ctx\<lparr>inputs := addr t # inputs ctx\<rparr>"

definition ggml_set_output :: "ggml_context \<Rightarrow> ggml_tensor \<Rightarrow> ggml_context" where
  "ggml_set_output ctx t = ctx\<lparr>outputs := addr t # outputs ctx\<rparr>"

subsection \<open>Computation graphs\<close>

text \<open>
  \<open>struct ggml_cgraph\<close>: the capacity given to \<open>ggml_new_graph_custom\<close>, the operation
  nodes in execution order, the leaves, and the addresses already visited.
\<close>

record ggml_cgraph =
  gsize :: nat
  nodes :: "ggml_tensor list"
  leafs :: "ggml_tensor list"
  visited :: "taddr list"

definition ggml_new_graph_custom :: "ggml_context \<Rightarrow> nat \<Rightarrow> ggml_context \<times> ggml_cgraph" where
  "ggml_new_graph_custom ctx sz =
     (ctx\<lparr>n_objects := Suc (n_objects ctx)\<rparr>,
      \<lparr>gsize = sz, nodes = [], leafs = [], visited = []\<rparr>)"

text \<open>
  Modelled from the spec: \<open>ggml_visit_parents\<close>, the depth-first walk behind
  \<open>ggml_build_forward_expand\<close>. A tensor seen before is skipped; otherwise its sources
  are visited in order and then the tensor is appended, to the leaves when it has no
  operation and no gradient, to the nodes otherwise. Either append asserts that the
  graph's capacity is not exhausted. (The default names \<open>leaf_%d\<close> and \<open>node_%d\<close>
  that ggml gives unnamed tensors, and the capacity of the hash set of visited tensors,
  which is larger than twice the graph's, are not modelled.)
\<close>

fun ggml_visit_parents :: "ggml_cgraph \<Rightarrow> ggml_tensor \<Rightarrow> error + ggml_cgraph"
  and ggml_visit_srcs :: "ggml_cgraph \<Rightarrow> ggml_tensor list \<Rightarrow> error + ggml_cgraph" where
  "ggml_visit_parents g (Tensor a ty opr n0 n1 n2 n3 b0 b1 b2 b3 srcs offs par nm) =
     (if a \<in> set (visited g) then Inr g
      else case ggml_visit_srcs (g\<lparr>visited := a # visited g\<rparr>) srcs of
        Inl e \<Rightarrow> Inl e
      | Inr g' \<Rightarrow>
          (if opr = GGML_OP_NONE \<and> \<not> par then
             (if length (leafs g') < gsize g'
              then Inr (g'\<lparr>leafs := leafs g' @ [Tensor a ty opr n0 n1 n2 n3 b0 b1 b2 b3 srcs offs par nm]\<rparr>)
              else Inl Assert_failed)
           else
             (if length (nodes g') < gsize g'
              then Inr (g'\<lparr>nodes := nodes g' @ [Tensor a ty opr n0 n1 n2 n3 b0 b1 b2 b3 srcs offs par nm]\<rparr>)
              else Inl Assert_failed)))"
| "ggml_visit_srcs g [] = Inr g"
| "ggml_visit_srcs g (t # ts) =
     (case ggml_visit_parents g t of
        Inl e \<Rightarrow> Inl e
      | Inr g' \<Rightarrow> ggml_visit_srcs g' ts)"

text \<open>
  Modelled from the spec: \<open>ggml_build_forward_expand\<close> walks from the given tensor and,
  when the walk added a node, asserts that the last node is that tensor.
\<close>

definition ggml_build_forward_expand :: "ggml_cgraph \<Rightarrow> ggml_tensor \<Rightarrow> error + ggml_cgraph" where
  "ggml_build_forward_expand g t =
     (case ggml_visit_parents g t of
        Inl e \<Rightarrow> Inl e
      | Inr g' \<Rightarrow>
          (if length (nodes g') > length (nodes g) \<and> addr (last (nodes g')) \<noteq> addr t
           then Inl Assert_failed else Inr g'))"

text \<open>
  \<open>ggml_graph_get_tensor\<close>: the first leaf, else the first node, of the given name;
  \<open>None\<close> is the null pointer.
\<close>

definition ggml_graph_get_tensor :: "ggml_cgraph \<Rightarrow> string \<Rightarrow> ggml_tensor option" where
  "ggml_graph_get_tensor g n = find (\<lambda>t. tname t = n) (leafs g @ nodes g)"

subsection \<open>Model, vocabulary, session\<close>

text \<open>
  The optional backends are chosen at compile time; the model takes the two macros the
  file branches on as parameters.
\<close>

record build_flags =
  GGML_USE_METAL :: bool
  GGML_USE_BLAS :: bool

record sense_voice_model =
  ctc_out_linear_weight :: ggml_tensor
  ctc_out_linear_bias :: ggml_tensor

text \<open>
  Modelled from the spec: the declaration of the vocabulary is not under src/. It is "an
  ordered mapping from token id to token string", a \<open>std::map<int, std::string>\<close>,
  whose \<open>operator[]\<close> inserts an empty string for a key it does not hold.
\<close>

record sense_voice_vocab =
  id_to_token :: "int \<rightharpoonup> string"

record sense_voice_context =
  model :: sense_voice_model
  vocab :: sense_voice_vocab

datatype backend_kind = Backend_CPU | Backend_BLAS | Backend_METAL | Backend_other

record ggml_backend =
  kind :: backend_kind
  n_threads_cfg :: int

datatype ggml_status =
  GGML_STATUS_ALLOC_FAILED | GGML_STATUS_FAILED | GGML_STATUS_SUCCESS | GGML_STATUS_ABORTED

text \<open>The calls made on the scheduler, in order (a ghost log for the ordering claims).\<close>

datatype sched_event =
    Ev_alloc_graph
  | Ev_tensor_set taddr taddr int int
  | Ev_graph_compute
  | Ev_reset

text \<open>
  The scheduler: its backends, whether a graph is currently allocated in its scratch
  buffers (\<open>is_alloc\<close>), whether that state has been reset (\<open>is_reset\<close>), and the log.
\<close>

record ggml_backend_sched =
  backends :: "ggml_backend list"
  is_alloc :: bool
  is_reset :: bool
  sched_log :: "sched_event list"

text \<open>
  The session. \<open>ids\<close> are C \<open>int\<close>s, on which no arithmetic is done.
  \<open>t_decode_us\<close> is an \<open>int64_t\<close> of microseconds: an integer here, kept in the
  64-bit range by the wrap-around of the one addition made on it (line 187).
\<close>

record sense_voice_state =
  encoder_out :: ggml_tensor
  ids :: "int list"
  t_decode_us :: int
  meta :: ggml_context
  sched :: ggml_backend_sched

text \<open>
  What the world outside the file does during one call: whether the scheduler can
  allocate the graph, the status of the execution, the 32-bit integers the execution
  leaves in the data of the graph's last node, and the two readings of the clock
  (\<open>ggml_time_us\<close> at entry and before the successful return, \<open>int64_t\<close> both).
\<close>

record engine =
  alloc_ok :: bool
  compute_status :: ggml_status
  out_data :: "nat \<Rightarrow> int"
  time_start :: int
  time_end :: int

subsection \<open>The graph builder\<close>

definition SENSEVOICE_DECODER_MAX_NODES :: nat where
  "SENSEVOICE_DECODER_MAX_NODES = 8"

text \<open>
  Line 96 calls \<open>ggml_mul_mat\<close>, which the macro of lines 70-72 turns into
  \<open>ggml_mul_mat_pad\<close> with the default \<open>pad = 32\<close> in a Metal build.
\<close>

definition ggml_mul_mat_macro ::
  "build_flags \<Rightarrow> ggml_context \<Rightarrow> ggml_tensor \<Rightarrow> ggml_tensor \<Rightarrow>
    error + ggml_context \<times> ggml_tensor" where
  "ggml_mul_mat_macro fl ctx a b =
     (if GGML_USE_METAL fl then ggml_mul_mat_pad ctx a b 32 else ggml_mul_mat ctx a b)"

text \<open>
  \<open>sense_voice_build_graph_ctc_decoder\<close> (lines 74-106). The graph context is created
  over the session's meta buffer, so the session is returned with the buffer's new
  contents next to the graph.
\<close>

definition sense_voice_build_graph_ctc_decoder ::
  "build_flags \<Rightarrow> sense_voice_context \<Rightarrow> sense_voice_state \<Rightarrow>
    error + sense_voice_state \<times> ggml_cgraph" where
  "sense_voice_build_graph_ctc_decoder fl ctx state =
     (let ctx0 = ggml_init;
          (ctx1, gf) = ggml_new_graph_custom ctx0 SENSEVOICE_DECODER_MAX_NODES;
          (ctx2, enc) = ggml_new_tensor_2d ctx1 (ttype (encoder_out state))
                          (ne0 (encoder_out state)) (ne1 (encoder_out state));
          enc_named = ggml_set_name enc ''encoder_out'';
          ctx3 = ggml_set_input ctx2 enc_named
      in case ggml_mul_mat_macro fl ctx3 (ctc_out_linear_weight (model ctx)) enc_named of
           Inl e \<Rightarrow> Inl e
         | Inr (ctx4, cur) \<Rightarrow>
       (case ggml_add ctx4 cur (ctc_out_linear_bias (model ctx)) of
           Inl e \<Rightarrow> Inl e
         | Inr (ctx5, cur') \<Rightarrow>
       (case ggml_soft_max ctx5 cur' of
           Inl e \<Rightarrow> Inl e
         | Inr (ctx6, probs) \<Rightarrow>
       (case ggml_argmax ctx6 probs of
           Inl e \<Rightarrow> Inl e
         | Inr (ctx7, argmax_logit) \<Rightarrow>
       (let ctx8 = ggml_set_output ctx7 probs;
            ctx9 = ggml_set_output ctx8 argmax_logit
        in case ggml_build_forward_expand gf argmax_logit of
             Inl e \<Rightarrow> Inl e
           | Inr gf' \<Rightarrow> Inr (state\<lparr>meta := ctx9\<rparr>, gf'))))))"


subsection \<open>The scheduler's interface\<close>

text \<open>
  Modelled from the spec: the backend scheduler is ggml's. Allocation either fails and
  returns false, or marks the graph allocated; a reset marks the scratch state free
  again; execution first allocates a graph that is not allocated yet and then returns
  the backend's status.
\<close>

definition ggml_backend_sched_reset :: "ggml_backend_sched \<Rightarrow> ggml_backend_sched" where
  "ggml_backend_sched_reset s =
     s\<lparr>is_alloc := False, is_reset := True, sched_log := sched_log s @ [Ev_reset]\<rparr>"

definition ggml_backend_sched_alloc_graph ::
  "engine \<Rightarrow> ggml_backend_sched \<Rightarrow> ggml_cgraph \<Rightarrow> bool \<times> ggml_backend_sched" where
  "ggml_backend_sched_alloc_graph eng s g =
     (let s' = s\<lparr>is_reset := False, sched_log := sched_log s @ [Ev_alloc_graph]\<rparr>
      in if alloc_ok eng then (True, s'\<lparr>is_alloc := True\<rparr>) else (False, s'))"

definition ggml_backend_sched_graph_compute ::
  "engine \<Rightarrow> ggml_backend_sched \<Rightarrow> ggml_cgraph \<Rightarrow> ggml_status \<times> ggml_backend_sched" where
  "ggml_backend_sched_graph_compute eng s g =
     (let s1 = (if \<not> is_reset s \<and> \<not> is_alloc s then ggml_backend_sched_reset s else s);
          (ok, s2) = (if is_alloc s1 then (True, s1) else ggml_backend_sched_alloc_graph eng s1 g)
      in if \<not> ok then (GGML_STATUS_ALLOC_FAILED, s2)
         else (compute_status eng, s2\<lparr>sched_log := sched_log s2 @ [Ev_graph_compute]\<rparr>))"

text \<open>
  Modelled from the spec: \<open>ggml_nbytes\<close> for an element type without blocks, and
  \<open>ggml_backend_tensor_set(tensor, data, offset, size)\<close>, which asserts that the write
  stays inside the tensor before it copies \<open>size\<close> bytes from \<open>data\<close>. The log
  entry names the destination tensor and the tensor whose data is the source.
\<close>

definition ggml_nbytes :: "ggml_tensor \<Rightarrow> int" where
  "ggml_nbytes t =
     ggml_type_size (ttype t) + (ne0 t - 1) * nb0 t + (ne1 t - 1) * nb1 t
       + (ne2 t - 1) * nb2 t + (ne3 t - 1) * nb3 t"

definition ggml_backend_tensor_set ::
  "ggml_backend_sched \<Rightarrow> ggml_tensor \<Rightarrow> ggml_tensor \<Rightarrow> int \<Rightarrow> int \<Rightarrow>
    error + ggml_backend_sched" where
  "ggml_backend_tensor_set s t data_of offset sz =
     (if offset + sz \<le> ggml_nbytes t
      then Inr (s\<lparr>sched_log := sched_log s @ [Ev_tensor_set (addr t) (addr data_of) offset sz]\<rparr>)
      else Inl Assert_failed)"

subsection \<open>The execution driver\<close>

text \<open>
  The loop of lines 113-129 over the scheduler's backends: a CPU backend gets the thread
  count; a BLAS backend too when compiled with BLAS; a Metal backend gets it as its
  number of command buffers when compiled with Metal.
\<close>

definition set_backend_threads :: "build_flags \<Rightarrow> int \<Rightarrow> ggml_backend \<Rightarrow> ggml_backend" where
  "set_backend_threads fl n b =
     (let b1 = (if kind b = Backend_CPU then b\<lparr>n_threads_cfg := n\<rparr> else b);
          b2 = (if GGML_USE_BLAS fl \<and> kind b1 = Backend_BLAS then b1\<lparr>n_threads_cfg := n\<rparr> else b1);
          b3 = (if GGML_USE_METAL fl \<and> kind b2 = Backend_METAL then b2\<lparr>n_threads_cfg := n\<rparr> else b2)
      in b3)"

fun set_all_backends :: "build_flags \<Rightarrow> int \<Rightarrow> ggml_backend list \<Rightarrow> ggml_backend list" where
  "set_all_backends fl n [] = []"
| "set_all_backends fl n (b # bs) = set_backend_threads fl n b # set_all_backends fl n bs"

text \<open>\<open>ggml_graph_compute_helper\<close> (lines 108-134).\<close>

definition ggml_graph_compute_helper ::
  "build_flags \<Rightarrow> engine \<Rightarrow> ggml_backend_sched \<Rightarrow> ggml_cgraph \<Rightarrow> int \<Rightarrow>
    bool \<times> ggml_backend_sched" where
  "ggml_graph_compute_helper fl eng s graph n_threads =
     (let s1 = s\<lparr>backends := set_all_backends fl n_threads (backends s)\<rparr>;
          (st, s2) = ggml_backend_sched_graph_compute eng s1 graph;
          t = (st = GGML_STATUS_SUCCESS);
          s3 = ggml_backend_sched_reset s2
      in (t, s3))"

subsection \<open>The decode orchestrator\<close>

text \<open>
  \<open>printf("%s", s.c_str())\<close> prints the bytes of the string up to its first NUL byte.
\<close>

definition c_str :: "string \<Rightarrow> string" where
  "c_str s = takeWhile (\<lambda>c. c \<noteq> CHR 0x00) s"

text \<open>
  The loop of lines 177-181: every id other than 0 is looked up with \<open>operator[]\<close> and
  its token printed. The vocabulary is returned as well, since a lookup of a missing key
  inserts the empty string.
\<close>

fun print_ids :: "(int \<rightharpoonup> string) \<Rightarrow> int list \<Rightarrow> (int \<rightharpoonup> string) \<times> string" where
  "print_ids m [] = (m, [])"
| "print_ids m (i # rest) =
     (if i \<noteq> 0 then
        (case m i of
           Some tok \<Rightarrow> (let (m', out) = print_ids m rest in (m', c_str tok @ out))
         | None \<Rightarrow> print_ids (m(i \<mapsto> [])) rest)
      else print_ids m rest)"

text \<open>The outcome of a call that returns: the boolean, the session, the context and stdout.\<close>

record decode_result =
  ok :: bool
  state_out :: sense_voice_state
  ctx_out :: sense_voice_context
  printed :: string

text \<open>
  \<open>sense_voice_decode_internal\<close> (lines 136-190). \<open>sizeof(float)\<close> is 4. The read
  \<open>gf->nodes[gf->n_nodes - 1]\<close> of an empty graph is the error \<open>Out_of_bounds\<close>.
  The subtraction and the \<open>+=\<close> of line 187 are 64-bit and wrap around.
\<close>

definition sense_voice_decode_internal ::
  "build_flags \<Rightarrow> engine \<Rightarrow> sense_voice_context \<Rightarrow> sense_voice_state \<Rightarrow> int \<Rightarrow>
    error + decode_result" where
  "sense_voice_decode_internal fl eng ctx state n_threads =
     (let t_start_us = time_start eng in
      case sense_voice_build_graph_ctc_decoder fl ctx state of
        Inl e \<Rightarrow> Inl e
      | Inr (state1, gf) \<Rightarrow>
          (let (allocated, sched1) = ggml_backend_sched_alloc_graph eng (sched state1) gf in
           if \<not> allocated then
             Inr \<lparr>ok = False, state_out = state1\<lparr>sched := sched1\<rparr>, ctx_out = ctx, printed = []\<rparr>
           else
             (case ggml_graph_get_tensor gf ''encoder_out'' of
                None \<Rightarrow> Inl Null_pointer
              | Some enc \<Rightarrow>
                  (case ggml_backend_tensor_set sched1 enc (encoder_out state1) 0
                          (ggml_nelements enc * 4) of
                     Inl e \<Rightarrow> Inl e
                   | Inr sched2 \<Rightarrow>
                       (let (computed, sched3) = ggml_graph_compute_helper fl eng sched2 gf n_threads in
                        if \<not> computed then
                          Inr \<lparr>ok = False, state_out = state1\<lparr>sched := sched3\<rparr>, ctx_out = ctx,
                               printed = []\<rparr>
                        else if nodes gf = [] then Inl Out_of_bounds
                        else
                          (let argmax_logit = last (nodes gf);
                               new_ids = map (out_data eng) [0 ..< nat (ne0 argmax_logit)];
                               (m', out) = print_ids (id_to_token (vocab ctx)) new_ids;
                               state2 = state1\<lparr>sched := sched3, ids := new_ids\<rparr>;
                               state3 = state2\<lparr>t_decode_us :=
                                  int64_wrap (t_decode_us state2 + int64_wrap (time_end eng - t_start_us))\<rparr>
                           in Inr \<lparr>ok = True, state_out = state3,
                                   ctx_out = ctx\<lparr>vocab := (vocab ctx)\<lparr>id_to_token := m'\<rparr>\<rparr>,
                                   printed = out @ [CHR 0x0A]\<rparr>))))))"


subsection \<open>The arg-max kernel\<close>

text \<open>
  Modelled from the spec: the kernel behind \<open>ggml_argmax\<close> is not under src/. "Arg-max:
  selecting the index of the maximum value along an axis": one scan per row that keeps
  the running maximum and the index of the last value equal to it, starting from minus
  infinity and index 0. The maximum \<open>vmax\<close>, the equality \<open>veq\<close> and the starting
  value are parameters, so nothing is assumed about floating-point values.
\<close>

fun argmax_scan :: "('a \<Rightarrow> 'a \<Rightarrow> 'a) \<Rightarrow> ('a \<Rightarrow> 'a \<Rightarrow> bool) \<Rightarrow> 'a list \<Rightarrow> nat \<Rightarrow> 'a \<Rightarrow> nat \<Rightarrow> nat" where
  "argmax_scan vmax veq [] i mx idx = idx"
| "argmax_scan vmax veq (v # vs) i mx idx =
     (let mx' = vmax mx v
      in argmax_scan vmax veq vs (Suc i) mx' (if veq mx' v then i else idx))"

definition argmax_row :: "('a \<Rightarrow> 'a \<Rightarrow> 'a) \<Rightarrow> ('a \<Rightarrow> 'a \<Rightarrow> bool) \<Rightarrow> 'a \<Rightarrow> 'a list \<Rightarrow> nat" where
  "argmax_row vmax veq neg_inf row = argmax_scan vmax veq row 0 neg_inf 0"

text \<open>
  Modelled from the spec: the execution of an arg-max node \<open>dst\<close> whose source is \<open>s\<close>.
  Entry \<open>i\<close> of the node's data is the arg-max of row \<open>i\<close> of the source, whose
  elements \<open>(0, i), ..., (ne0 s - 1, i)\<close> are given by \<open>contents\<close>. A node without a
  source is never built; its entries are 0 here.
\<close>

definition ggml_compute_forward_argmax ::
  "('a \<Rightarrow> 'a \<Rightarrow> 'a) \<Rightarrow> ('a \<Rightarrow> 'a \<Rightarrow> bool) \<Rightarrow> 'a \<Rightarrow> (ggml_tensor \<Rightarrow> nat \<Rightarrow> nat \<Rightarrow> 'a) \<Rightarrow>
     ggml_tensor \<Rightarrow> nat \<Rightarrow> int" where
  "ggml_compute_forward_argmax vmax veq neg_inf contents dst i =
     (case src dst of
        s # _ \<Rightarrow> int (argmax_row vmax veq neg_inf (map (\<lambda>j. contents s j i) [0 ..< nat (ne0 s)]))
      | [] \<Rightarrow> 0)"

subsection \<open>The rendered text, in the spec's words\<close>

text \<open>
  The spec's description of the text of a step, to compare \<open>print_ids\<close> with: the
  tokens of the ids other than the blank id 0, concatenated in order. An id without an
  entry has the empty token.
\<close>

definition token_of :: "(int \<rightharpoonup> string) \<Rightarrow> int \<Rightarrow> string" where
  "token_of m i = (case m i of Some tok \<Rightarrow> tok | None \<Rightarrow> [])"

definition spec_rendered_text :: "(int \<rightharpoonup> string) \<Rightarrow> int list \<Rightarrow> string" where
  "spec_rendered_text m xs = concat (map (token_of m) (filter (\<lambda>i. i \<noteq> 0) xs))"

text \<open>A vocabulary none of whose tokens holds a NUL byte.\<close>

definition nul_free :: "(int \<rightharpoonup> string) \<Rightarrow> bool" where
  "nul_free m \<longleftrightarrow> (\<forall>tok \<in> ran m. CHR 0x00 \<notin> set tok)"

subsection \<open>The values of tensors, in exact arithmetic\<close>






subsection \<open>Well-formed model tensors and the graph's input\<close>

text \<open>
  A leaf as the model loader creates it: no operation, no gradient, no sources. A model
  tensor is a leaf that lives in the model's context, not in the per-call graph context.
\<close>

definition ggml_is_leaf :: "ggml_tensor \<Rightarrow> bool" where
  "ggml_is_leaf t \<longleftrightarrow> op t = GGML_OP_NONE \<and> \<not> is_param t \<and> src t = []"

definition model_tensor :: "ggml_tensor \<Rightarrow> bool" where
  "model_tensor t \<longleftrightarrow> ggml_is_leaf t \<and> (case addr t of Model_obj k \<Rightarrow> True | _ \<Rightarrow> False)"

text \<open>
  The tensor that lines 89-91 create: the second object of the graph context (the graph
  itself is the first), of the session's encoder-output type and first two dimensions.
\<close>

definition graph_input :: "sense_voice_state \<Rightarrow> ggml_tensor" where
  "graph_input state =
     ggml_set_name (snd (ggml_new_tensor_2d \<lparr>n_objects = 1, inputs = [], outputs = []\<rparr>
        (ttype (encoder_out state)) (ne0 (encoder_out state)) (ne1 (encoder_out state)))) ''encoder_out''"

subsection \<open>Example inputs\<close>

definition leaf_tensor ::
  "taddr \<Rightarrow> ggml_type \<Rightarrow> int \<Rightarrow> int \<Rightarrow> int \<Rightarrow> int \<Rightarrow> string \<Rightarrow> ggml_tensor" where
  "leaf_tensor a ty n0 n1 n2 n3 nm =
     (let ts = ggml_type_size ty in
      Tensor a ty GGML_OP_NONE n0 n1 n2 n3 ts (ts * n0) (ts * n0 * n1) (ts * n0 * n1 * n2)
        [] 0 False nm)"

definition ex_sched :: ggml_backend_sched where
  "ex_sched =
     \<lparr>backends = [\<lparr>kind = Backend_CPU, n_threads_cfg = 1\<rparr>,
                  \<lparr>kind = Backend_METAL, n_threads_cfg = 1\<rparr>],
      is_alloc = False, is_reset = True, sched_log = []\<rparr>"

text \<open>A model of hidden size \<open>h\<close> with eight tokens, and the vocabulary of the spec's example.\<close>

definition ex_ctx :: "int \<Rightarrow> sense_voice_context" where
  "ex_ctx h =
     \<lparr>model = \<lparr>ctc_out_linear_weight = leaf_tensor (Model_obj 0) GGML_TYPE_F32 h 8 1 1 ''ctc.w'',
               ctc_out_linear_bias = leaf_tensor (Model_obj 1) GGML_TYPE_F32 8 1 1 1 ''ctc.b''\<rparr>,
      vocab = \<lparr>id_to_token = [5 \<mapsto> ''A'', 7 \<mapsto> ''B'']\<rparr>\<rparr>"

text \<open>A session with five frames of encoder output of hidden size \<open>h\<close> and element type \<open>ty\<close>.\<close>

definition ex_state :: "int \<Rightarrow> ggml_type \<Rightarrow> sense_voice_state" where
  "ex_state h ty =
     \<lparr>encoder_out = leaf_tensor (State_obj 0) ty h 5 1 1 ''enc'',
      ids = [1, 2, 3], t_decode_us = 100, meta = ggml_init, sched = ex_sched\<rparr>"

definition fl_cpu :: build_flags where
  "fl_cpu = \<lparr>GGML_USE_METAL = False, GGML_USE_BLAS = False\<rparr>"

definition fl_metal :: build_flags where
  "fl_metal = \<lparr>GGML_USE_METAL = True, GGML_USE_BLAS = False\<rparr>"

definition ex_engine :: engine where
  "ex_engine =
     \<lparr>alloc_ok = True, compute_status = GGML_STATUS_SUCCESS,
      out_data = (\<lambda>i. [0, 5, 0, 7, 0] ! i), time_start = 1000, time_end = 1250\<rparr>"

definition ex_graph :: ggml_cgraph where
  "ex_graph = \<lparr>gsize = 8, nodes = [], leafs = [], visited = []\<rparr>"

text \<open>
  A vocabulary with an entry for each of the eight ids; contents of the probability
  tensor (the value at vocabulary index \<open>j\<close> of frame \<open>i\<close>); and an engine whose
  execution leaves in the last node what the arg-max kernel computes from them on eight
  vocabulary entries per frame.
\<close>

definition ex_table :: "int \<rightharpoonup> string" where
  "ex_table = (\<lambda>k. if 0 \<le> k \<and> k < 8 then Some (if k = 5 then ''A'' else if k = 7 then ''B'' else ''-'') else None)"

definition ex_contents :: "ggml_tensor \<Rightarrow> nat \<Rightarrow> nat \<Rightarrow> nat" where
  "ex_contents t j i = (j * (i + 2) + 3 * i) mod 7"

definition ex_kernel_engine :: engine where
  "ex_kernel_engine =
     ex_engine\<lparr>out_data :=
       (\<lambda>i. int (argmax_row max (=) 0 (map (\<lambda>j. (j * (i + 2) + 3 * i) mod 7) [0 ..< 8])))\<rparr>"




section \<open>Lemmas\<close>

subsection \<open>The depth-first walk on the decoder's graphs\<close>

lemma visit_leaf:
  "ggml_is_leaf t \<Longrightarrow> ggml_visit_parents g t =
     (if addr t \<in> set (visited g) then Inr g
      else if length (leafs g) < gsize g
           then Inr (g\<lparr>visited := addr t # visited g, leafs := leafs g @ [t]\<rparr>)
           else Inl Assert_failed)"
  by (cases t) (simp add: ggml_is_leaf_def)

lemma visit_node:
  "op t \<noteq> GGML_OP_NONE \<Longrightarrow> ggml_visit_parents g t =
     (if addr t \<in> set (visited g) then Inr g
      else case ggml_visit_srcs (g\<lparr>visited := addr t # visited g\<rparr>) (src t) of
             Inl e \<Rightarrow> Inl e
           | Inr g' \<Rightarrow> if length (nodes g') < gsize g' then Inr (g'\<lparr>nodes := nodes g' @ [t]\<rparr>)
                        else Inl Assert_failed)"
  by (cases t) (auto split: sum.splits)

lemma build_state:
  "sense_voice_build_graph_ctc_decoder fl ctx state = Inr (st', gf) \<Longrightarrow> st' = state\<lparr>meta := meta st'\<rparr>"
  by (auto simp: sense_voice_build_graph_ctc_decoder_def Let_def split: sum.splits prod.splits)

lemma visit_pipeline4:
  assumes "op am = GGML_OP_ARGMAX" "src am = [sm]" "addr am = Ctx_obj 5"
    and "op sm = GGML_OP_SOFT_MAX" "src sm = [ad]" "addr sm = Ctx_obj 4"
    and "op ad = GGML_OP_ADD" "src ad = [mm, bias]" "addr ad = Ctx_obj 3"
    and "op mm = GGML_OP_MUL_MAT" "src mm = [w, enc]" "addr mm = Ctx_obj 2"
    and "ggml_is_leaf enc" "addr enc = Ctx_obj 1"
    and "model_tensor w" "model_tensor bias"
  shows "ggml_visit_parents \<lparr>gsize = 8, nodes = [], leafs = [], visited = []\<rparr> am =
     Inr \<lparr>gsize = 8, nodes = [mm, ad, sm, am],
          leafs = (if addr bias = addr w then [w, enc] else [w, enc, bias]),
          visited = (if addr bias = addr w then [] else [addr bias]) @ [addr enc, addr w, addr mm, addr ad, addr sm, addr am]\<rparr>"
  using assms
  by (auto simp: visit_node visit_leaf model_tensor_def split: taddr.splits)

lemma mul_mat_Inr:
  "ggml_mul_mat c a b = Inr (c', t) \<Longrightarrow>
     c' = c\<lparr>n_objects := Suc (n_objects c)\<rparr> \<and> addr t = Ctx_obj (n_objects c) \<and>
     op t = GGML_OP_MUL_MAT \<and> src t = [a, b] \<and> ttype t = GGML_TYPE_F32 \<and>
     ne0 t = ne1 a \<and> ne1 t = ne1 b \<and> ne2 t = ne2 b \<and> ne3 t = ne3 b \<and> ggml_is_contiguous t \<and>
     ggml_can_mul_mat a b = Some True \<and> \<not> ggml_is_transposed a"
  by (auto simp: ggml_mul_mat_def ggml_new_tensor_def ggml_is_contiguous_def Let_def
      split: if_splits option.splits bool.splits)

lemma add_Inr:
  "ggml_add c a b = Inr (c', t) \<Longrightarrow>
     c' = c\<lparr>n_objects := Suc (n_objects c)\<rparr> \<and> addr t = Ctx_obj (n_objects c) \<and>
     op t = GGML_OP_ADD \<and> src t = [a, b] \<and> ttype t = ttype a \<and>
     ne0 t = ne0 a \<and> ne1 t = ne1 a \<and> ne2 t = ne2 a \<and> ne3 t = ne3 a \<and> ggml_is_contiguous t"
  by (auto simp: ggml_add_def ggml_new_tensor_def ggml_is_contiguous_def Let_def
      split: if_splits option.splits bool.splits)

lemma soft_max_Inr:
  "ggml_soft_max c a = Inr (c', t) \<Longrightarrow>
     c' = c\<lparr>n_objects := Suc (n_objects c)\<rparr> \<and> addr t = Ctx_obj (n_objects c) \<and>
     op t = GGML_OP_SOFT_MAX \<and> src t = [a] \<and> ttype t = ttype a \<and>
     ne0 t = ne0 a \<and> ne1 t = ne1 a \<and> ne2 t = ne2 a \<and> ne3 t = ne3 a"
  by (auto simp: ggml_soft_max_def ggml_new_tensor_def Let_def split: if_splits)

lemma argmax_Inr:
  "ggml_argmax c a = Inr (c', t) \<Longrightarrow>
     c' = c\<lparr>n_objects := Suc (n_objects c)\<rparr> \<and> addr t = Ctx_obj (n_objects c) \<and>
     op t = GGML_OP_ARGMAX \<and> src t = [a] \<and> ttype t = GGML_TYPE_I32 \<and>
     ne0 t = ne1 a \<and> ne1 t = 1 \<and> ne2 t = 1 \<and> ne3 t = 1"
  by (auto simp: ggml_argmax_def ggml_new_tensor_def Let_def split: if_splits)

lemma graph_input_sel:
  "addr (graph_input s) = Ctx_obj 1" "ggml_is_leaf (graph_input s)"
  "tname (graph_input s) = ''encoder_out''" "ttype (graph_input s) = ttype (encoder_out s)"
  "ne0 (graph_input s) = ne0 (encoder_out s)" "ne1 (graph_input s) = ne1 (encoder_out s)"
  "ne2 (graph_input s) = 1" "ne3 (graph_input s) = 1"
  "ggml_nbytes (graph_input s) = ggml_type_size (ttype (encoder_out s)) * ne0 (encoder_out s) * ne1 (encoder_out s)"
  by (simp_all add: graph_input_def ggml_new_tensor_2d_def ggml_new_tensor_def ggml_set_name_def
      ggml_is_leaf_def ggml_nbytes_def Let_def algebra_simps)

lemma build_unfold:
  "sense_voice_build_graph_ctc_decoder fl ctx state =
     (case ggml_mul_mat_macro fl \<lparr>n_objects = 2, inputs = [Ctx_obj 1], outputs = []\<rparr>
             (ctc_out_linear_weight (model ctx)) (graph_input state) of
        Inl e \<Rightarrow> Inl e
      | Inr (ctx4, cur) \<Rightarrow>
       (case ggml_add ctx4 cur (ctc_out_linear_bias (model ctx)) of
           Inl e \<Rightarrow> Inl e
         | Inr (ctx5, cur') \<Rightarrow>
       (case ggml_soft_max ctx5 cur' of
           Inl e \<Rightarrow> Inl e
         | Inr (ctx6, probs) \<Rightarrow>
       (case ggml_argmax ctx6 probs of
           Inl e \<Rightarrow> Inl e
         | Inr (ctx7, argmax_logit) \<Rightarrow>
        (case ggml_build_forward_expand \<lparr>gsize = 8, nodes = [], leafs = [], visited = []\<rparr> argmax_logit of
             Inl e \<Rightarrow> Inl e
           | Inr gf' \<Rightarrow> Inr (state\<lparr>meta := ctx7\<lparr>outputs := addr argmax_logit # addr probs # outputs ctx7\<rparr>\<rparr>, gf'))))))"
  by (simp add: sense_voice_build_graph_ctc_decoder_def graph_input_def ggml_init_def
      ggml_new_graph_custom_def ggml_new_tensor_2d_def ggml_new_tensor_def Let_def
      ggml_set_input_def ggml_set_output_def ggml_set_name_def SENSEVOICE_DECODER_MAX_NODES_def
      numeral_2_eq_2 cong: sum.case_cong)

lemma expand_pipeline4:
  assumes "op am = GGML_OP_ARGMAX" "src am = [sm]" "addr am = Ctx_obj 5"
    and "op sm = GGML_OP_SOFT_MAX" "src sm = [ad]" "addr sm = Ctx_obj 4"
    and "op ad = GGML_OP_ADD" "src ad = [mm, bias]" "addr ad = Ctx_obj 3"
    and "op mm = GGML_OP_MUL_MAT" "src mm = [w, enc]" "addr mm = Ctx_obj 2"
    and "ggml_is_leaf enc" "addr enc = Ctx_obj 1"
    and "model_tensor w" "model_tensor bias"
    and "ggml_build_forward_expand \<lparr>gsize = 8, nodes = [], leafs = [], visited = []\<rparr> am = r"
  shows "\<exists>gf. r = Inr gf \<and> nodes gf = [mm, ad, sm, am] \<and>
          leafs gf = (if addr bias = addr w then [w, enc] else [w, enc, bias])"
  using assms(17) unfolding ggml_build_forward_expand_def visit_pipeline4 [OF assms(1-16)]
  by (auto simp: assms(3))

lemma build_direct:
  assumes b: "sense_voice_build_graph_ctc_decoder fl ctx state = Inr (st', gf)"
    and w: "model_tensor (ctc_out_linear_weight (model ctx))"
    and bi: "model_tensor (ctc_out_linear_bias (model ctx))"
    and direct: "ggml_mul_mat_macro fl \<lparr>n_objects = 2, inputs = [Ctx_obj 1], outputs = []\<rparr>
             (ctc_out_linear_weight (model ctx)) (graph_input state) =
          ggml_mul_mat  \<lparr>n_objects = 2, inputs = [Ctx_obj 1], outputs = []\<rparr>
             (ctc_out_linear_weight (model ctx)) (graph_input state)"
  shows "\<exists>mm ad sm am. nodes gf = [mm, ad, sm, am] \<and>
      op mm = GGML_OP_MUL_MAT \<and> op ad = GGML_OP_ADD \<and> op sm = GGML_OP_SOFT_MAX \<and> op am = GGML_OP_ARGMAX \<and>
      src mm = [ctc_out_linear_weight (model ctx), graph_input state] \<and>
      src ad = [mm, ctc_out_linear_bias (model ctx)] \<and> src sm = [ad] \<and> src am = [sm] \<and>
      ne0 am = ne1 (encoder_out state) \<and> ne0 sm = ne1 (ctc_out_linear_weight (model ctx)) \<and>
      leafs gf = (if addr (ctc_out_linear_bias (model ctx)) = addr (ctc_out_linear_weight (model ctx))
                  then [ctc_out_linear_weight (model ctx), graph_input state]
                  else [ctc_out_linear_weight (model ctx), graph_input state, ctc_out_linear_bias (model ctx)]) \<and>
      st' = state\<lparr>meta := \<lparr>n_objects = 6, inputs = [Ctx_obj 1], outputs = [addr am, addr sm]\<rparr>\<rparr>"
proof -
  let ?w = "ctc_out_linear_weight (model ctx)" and ?b = "ctc_out_linear_bias (model ctx)"
  let ?c3 = "\<lparr>n_objects = 2, inputs = [Ctx_obj 1], outputs = []\<rparr>"
  from b obtain c4 mm where mm: "ggml_mul_mat ?c3 ?w (graph_input state) = Inr (c4, mm)"
    unfolding build_unfold direct by (auto split: sum.splits)
  from b mm obtain c5 ad where ad: "ggml_add c4 mm ?b = Inr (c5, ad)"
    unfolding build_unfold direct by (auto split: sum.splits)
  from b mm ad obtain c6 sm where sm: "ggml_soft_max c5 ad = Inr (c6, sm)"
    unfolding build_unfold direct by (auto split: sum.splits)
  from b mm ad sm obtain c7 am where am: "ggml_argmax c6 sm = Inr (c7, am)"
    unfolding build_unfold direct by (auto split: sum.splits)
  from b mm ad sm am have fin:
    "(case ggml_build_forward_expand \<lparr>gsize = 8, nodes = [], leafs = [], visited = []\<rparr> am of
        Inl e \<Rightarrow> Inl e
      | Inr gf' \<Rightarrow> Inr (state\<lparr>meta := c7\<lparr>outputs := addr am # addr sm # outputs c7\<rparr>\<rparr>, gf')) = Inr (st', gf)"
    unfolding build_unfold direct by simp
  note M = mul_mat_Inr [OF mm] and A = add_Inr [OF ad] and S = soft_max_Inr [OF sm]
    and G = argmax_Inr [OF am]
  have c7: "c7 = \<lparr>n_objects = 6, inputs = [Ctx_obj 1], outputs = []\<rparr>"
    using M A S G by simp
  obtain g' where g': "ggml_build_forward_expand \<lparr>gsize = 8, nodes = [], leafs = [], visited = []\<rparr> am = Inr g'"
    "nodes g' = [mm, ad, sm, am]"
    "leafs g' = (if addr ?b = addr ?w then [?w, graph_input state] else [?w, graph_input state, ?b])"
    using expand_pipeline4 [of am sm ad mm ?b ?w "graph_input state", OF _ _ _ _ _ _ _ _ _ _ _ _ _ _ w bi refl]
      M A S G graph_input_sel(1,2) [of state]
    by auto
  from fin g' have "gf = g'" "st' = state\<lparr>meta := c7\<lparr>outputs := addr am # addr sm # outputs c7\<rparr>\<rparr>"
    by auto
  then show ?thesis
    using g' M A S G c7 graph_input_sel(6) [of state] by auto
qed

lemma visit_pipeline10:
  assumes "op am = GGML_OP_ARGMAX" "src am = [sm]" "addr am = Ctx_obj 11"
    and "op sm = GGML_OP_SOFT_MAX" "src sm = [ad]" "addr sm = Ctx_obj 10"
    and "op ad = GGML_OP_ADD" "src ad = [z, bias]" "addr ad = Ctx_obj 9"
    and "op z = GGML_OP_ADD" "src z = [p0, p1]" "addr z = Ctx_obj 8"
    and "op p1 = GGML_OP_MUL_MAT" "src p1 = [x1, y1]" "addr p1 = Ctx_obj 7"
    and "op p0 = GGML_OP_MUL_MAT" "src p0 = [x0, y0]" "addr p0 = Ctx_obj 6"
    and "op y1 = GGML_OP_VIEW" "src y1 = [enc]" "addr y1 = Ctx_obj 5"
    and "op y0 = GGML_OP_VIEW" "src y0 = [enc]" "addr y0 = Ctx_obj 4"
    and "op x1 = GGML_OP_VIEW" "src x1 = [w]" "addr x1 = Ctx_obj 3"
    and "op x0 = GGML_OP_VIEW" "src x0 = [w]" "addr x0 = Ctx_obj 2"
    and "ggml_is_leaf enc" "addr enc = Ctx_obj 1"
    and "model_tensor w" "model_tensor bias"
  shows "ggml_visit_parents \<lparr>gsize = 8, nodes = [], leafs = [], visited = []\<rparr> am = Inl Assert_failed"
  using assms
  by (auto simp: visit_node visit_leaf model_tensor_def split: taddr.splits)

lemma view_3d_sel:
  "ggml_view_3d c a n0 n1 n2 b1 b2 off = (c', t) \<Longrightarrow>
     c' = c\<lparr>n_objects := Suc (n_objects c)\<rparr> \<and> addr t = Ctx_obj (n_objects c) \<and>
     op t = GGML_OP_VIEW \<and> src t = [a]"
  by (auto simp: ggml_view_3d_def)

lemma mul_mat_pad_split_Inr:
  assumes "pad_fallback x pad = Some False" "ggml_mul_mat_pad c x y pad = Inr (c', z)"
  shows "\<exists>x0 x1 y0 y1 p0 p1.
     op z = GGML_OP_ADD \<and> src z = [p0, p1] \<and> addr z = Ctx_obj (n_objects c + 6) \<and>
     op p1 = GGML_OP_MUL_MAT \<and> src p1 = [x1, y1] \<and> addr p1 = Ctx_obj (n_objects c + 5) \<and>
     op p0 = GGML_OP_MUL_MAT \<and> src p0 = [x0, y0] \<and> addr p0 = Ctx_obj (n_objects c + 4) \<and>
     op y1 = GGML_OP_VIEW \<and> src y1 = [y] \<and> addr y1 = Ctx_obj (n_objects c + 3) \<and>
     op y0 = GGML_OP_VIEW \<and> src y0 = [y] \<and> addr y0 = Ctx_obj (n_objects c + 2) \<and>
     op x1 = GGML_OP_VIEW \<and> src x1 = [x] \<and> addr x1 = Ctx_obj (n_objects c + 1) \<and>
     op x0 = GGML_OP_VIEW \<and> src x0 = [x] \<and> addr x0 = Ctx_obj (n_objects c) \<and>
     c' = c\<lparr>n_objects := n_objects c + 7\<rparr>"
  using assms
  by (auto simp: ggml_mul_mat_pad_def ggml_view_3d_def ggml_mul_mat_def ggml_add_def
      ggml_new_tensor_def Let_def split: if_splits option.splits bool.splits)

lemma build_split_fails:
  assumes w: "model_tensor (ctc_out_linear_weight (model ctx))"
    and bi: "model_tensor (ctc_out_linear_bias (model ctx))"
    and metal: "GGML_USE_METAL fl"
    and split: "pad_fallback (ctc_out_linear_weight (model ctx)) 32 = Some False"
  shows "sense_voice_build_graph_ctc_decoder fl ctx state \<noteq> Inr r"
proof
  assume "sense_voice_build_graph_ctc_decoder fl ctx state = Inr r"
  then have b: "sense_voice_build_graph_ctc_decoder fl ctx state = Inr (fst r, snd r)" by simp
  let ?w = "ctc_out_linear_weight (model ctx)" and ?b = "ctc_out_linear_bias (model ctx)"
  let ?c3 = "\<lparr>n_objects = 2, inputs = [Ctx_obj 1], outputs = []\<rparr>"
  have mac: "ggml_mul_mat_macro fl ?c3 ?w (graph_input state) = ggml_mul_mat_pad ?c3 ?w (graph_input state) 32"
    using metal by (simp add: ggml_mul_mat_macro_def)
  from b obtain c4 z where z: "ggml_mul_mat_pad ?c3 ?w (graph_input state) 32 = Inr (c4, z)"
    unfolding build_unfold mac by (auto split: sum.splits)
  from b z obtain c5 ad where ad: "ggml_add c4 z ?b = Inr (c5, ad)"
    unfolding build_unfold mac by (auto split: sum.splits)
  from b z ad obtain c6 sm where sm: "ggml_soft_max c5 ad = Inr (c6, sm)"
    unfolding build_unfold mac by (auto split: sum.splits)
  from b z ad sm obtain c7 am where am: "ggml_argmax c6 sm = Inr (c7, am)"
    unfolding build_unfold mac by (auto split: sum.splits)
  from b z ad sm am obtain g' where
    fin: "ggml_build_forward_expand \<lparr>gsize = 8, nodes = [], leafs = [], visited = []\<rparr> am = Inr g'"
    unfolding build_unfold mac by (auto split: sum.splits)
  from mul_mat_pad_split_Inr [OF split z] obtain x0 x1 y0 y1 p0 p1 where Z:
     "op z = GGML_OP_ADD" "src z = [p0, p1]" "addr z = Ctx_obj 8"
     "op p1 = GGML_OP_MUL_MAT" "src p1 = [x1, y1]" "addr p1 = Ctx_obj 7"
     "op p0 = GGML_OP_MUL_MAT" "src p0 = [x0, y0]" "addr p0 = Ctx_obj 6"
     "op y1 = GGML_OP_VIEW" "src y1 = [graph_input state]" "addr y1 = Ctx_obj 5"
     "op y0 = GGML_OP_VIEW" "src y0 = [graph_input state]" "addr y0 = Ctx_obj 4"
     "op x1 = GGML_OP_VIEW" "src x1 = [?w]" "addr x1 = Ctx_obj 3"
     "op x0 = GGML_OP_VIEW" "src x0 = [?w]" "addr x0 = Ctx_obj 2"
     and c4: "c4 = ?c3\<lparr>n_objects := 9\<rparr>"
    by auto
  note A = add_Inr [OF ad] and S = soft_max_Inr [OF sm] and G = argmax_Inr [OF am]
  have "ggml_visit_parents \<lparr>gsize = 8, nodes = [], leafs = [], visited = []\<rparr> am = Inl Assert_failed"
    by (rule visit_pipeline10 [of am sm ad z ?b p0 p1 x1 y1 x0 y0 "graph_input state" ?w])
       (use Z A S G c4 w bi graph_input_sel(1,2) [of state] in simp_all)
  with fin show False
    by (simp add: ggml_build_forward_expand_def)
qed

subsection \<open>The orchestrator, unfolded\<close>

lemma decode_unfold:
  assumes "sense_voice_build_graph_ctc_decoder fl ctx state = Inr (st1, gf)"
  shows "sense_voice_decode_internal fl eng ctx state n =
     (if \<not> alloc_ok eng then
        Inr \<lparr>ok = False,
             state_out = st1\<lparr>sched := (sched st1)\<lparr>is_reset := False,
                sched_log := sched_log (sched st1) @ [Ev_alloc_graph]\<rparr>\<rparr>,
             ctx_out = ctx, printed = []\<rparr>
      else case ggml_graph_get_tensor gf ''encoder_out'' of
        None \<Rightarrow> Inl Null_pointer
      | Some enc \<Rightarrow>
          if ggml_nelements enc * 4 \<le> ggml_nbytes enc then
            (let s3 = (sched st1)\<lparr>backends := set_all_backends fl n (backends (sched st1)),
                        is_alloc := False, is_reset := True,
                        sched_log := sched_log (sched st1) @
                          [Ev_alloc_graph,
                           Ev_tensor_set (addr enc) (addr (encoder_out st1)) 0 (ggml_nelements enc * 4),
                           Ev_graph_compute, Ev_reset]\<rparr>
             in if compute_status eng \<noteq> GGML_STATUS_SUCCESS then
                  Inr \<lparr>ok = False, state_out = st1\<lparr>sched := s3\<rparr>, ctx_out = ctx, printed = []\<rparr>
                else if nodes gf = [] then Inl Out_of_bounds
                else
                  (let new_ids = map (out_data eng) [0 ..< nat (ne0 (last (nodes gf)))];
                       p = print_ids (id_to_token (vocab ctx)) new_ids
                   in Inr \<lparr>ok = True,
                        state_out = st1\<lparr>sched := s3, ids := new_ids,
                           t_decode_us := int64_wrap (t_decode_us st1 +
                              int64_wrap (time_end eng - time_start eng))\<rparr>,
                        ctx_out = ctx\<lparr>vocab := (vocab ctx)\<lparr>id_to_token := fst p\<rparr>\<rparr>,
                        printed = snd p @ [CHR 0x0A]\<rparr>))
          else Inl Assert_failed)"
  using assms
  by (auto simp: sense_voice_decode_internal_def ggml_backend_sched_alloc_graph_def
      ggml_backend_tensor_set_def ggml_graph_compute_helper_def ggml_backend_sched_graph_compute_def
      ggml_backend_sched_reset_def Let_def split: option.splits prod.splits)

subsection \<open>Evaluating the examples\<close>

lemmas ex_defs = ex_ctx_def ex_state_def leaf_tensor_def fl_cpu_def fl_metal_def ex_sched_def ex_engine_def
lemmas build_defs = c_div_traps_def sense_voice_build_graph_ctc_decoder_def ggml_init_def ggml_new_graph_custom_def
  ggml_new_tensor_2d_def ggml_new_tensor_def ggml_set_name_def ggml_set_input_def ggml_set_output_def
  ggml_mul_mat_macro_def ggml_mul_mat_pad_def pad_fallback_def c_mod_def c_div_def n_pad_req_def
  ggml_view_3d_def ggml_mul_mat_def ggml_can_mul_mat_def ggml_is_transposed_def ggml_add_def
  ggml_can_repeat_def ggml_soft_max_def ggml_is_contiguous_def ggml_argmax_def ggml_is_matrix_def
  ggml_build_forward_expand_def SENSEVOICE_DECODER_MAX_NODES_def ggml_type_size_def Let_def

lemma ex_build_metal_512:
  "\<exists>b. sense_voice_build_graph_ctc_decoder fl_metal (ex_ctx 512) (ex_state 512 GGML_TYPE_F32) = Inr b"
  by (simp add: ex_defs build_defs)

lemma ex_model_tensors:
  "model_tensor (ctc_out_linear_weight (model (ex_ctx h)))"
  "model_tensor (ctc_out_linear_bias (model (ex_ctx h)))"
  by (simp_all add: ex_defs model_tensor_def ggml_is_leaf_def Let_def)

lemma pad_fallback_32: "pad_fallback x 32 = Some True \<or> pad_fallback x 32 = Some False"
  by (auto simp: pad_fallback_def c_div_traps_def)

lemma build_returns_four_nodes:
  assumes w: "model_tensor (ctc_out_linear_weight (model ctx))"
    and bi: "model_tensor (ctc_out_linear_bias (model ctx))"
    and b: "sense_voice_build_graph_ctc_decoder fl ctx state = Inr (st', gf)"
  shows "map op (nodes gf) = [GGML_OP_MUL_MAT, GGML_OP_ADD, GGML_OP_SOFT_MAX, GGML_OP_ARGMAX] \<and>
         op (last (nodes gf)) = GGML_OP_ARGMAX \<and>
         addr (last (nodes gf)) \<in> set (outputs (meta st')) \<and>
         addr (nodes gf ! 2) \<in> set (outputs (meta st'))"
proof -
  let ?w = "ctc_out_linear_weight (model ctx)"
  have "GGML_USE_METAL fl \<longrightarrow> pad_fallback ?w 32 = Some True"
    using build_split_fails [OF w bi, of fl state "(st', gf)"] b pad_fallback_32 [of ?w] by blast
  then have "ggml_mul_mat_macro fl \<lparr>n_objects = 2, inputs = [Ctx_obj 1], outputs = []\<rparr> ?w (graph_input state) =
          ggml_mul_mat \<lparr>n_objects = 2, inputs = [Ctx_obj 1], outputs = []\<rparr> ?w (graph_input state)"
    by (auto simp: ggml_mul_mat_macro_def ggml_mul_mat_pad_def)
  from build_direct [OF b w bi this] obtain mm ad sm am where
    n: "nodes gf = [mm, ad, sm, am]" "op mm = GGML_OP_MUL_MAT" "op ad = GGML_OP_ADD"
      "op sm = GGML_OP_SOFT_MAX" "op am = GGML_OP_ARGMAX"
    and m: "st' = state\<lparr>meta := \<lparr>n_objects = 6, inputs = [Ctx_obj 1], outputs = [addr am, addr sm]\<rparr>\<rparr>"
    by blast
  from n m show ?thesis by simp
qed

subsection \<open>Successful calls, printing and the arg-max scan\<close>

lemma build_meta_only:
  assumes "sense_voice_build_graph_ctc_decoder fl ctx state = Inr (st1, gf)"
  shows "ids st1 = ids state \<and> t_decode_us st1 = t_decode_us state \<and>
         encoder_out st1 = encoder_out state \<and> sched st1 = sched state"
proof -
  from build_state [OF assms] obtain m where "st1 = state\<lparr>meta := m\<rparr>" by blast
  then show ?thesis by simp
qed

lemma ex_build_cpu_512:
  "\<exists>b. sense_voice_build_graph_ctc_decoder fl_cpu (ex_ctx 512) (ex_state 512 ty) = Inr b"
  by (simp add: ex_defs build_defs)

lemma token_of_insert_empty: "m i = None \<Longrightarrow> token_of (m(i \<mapsto> [])) = token_of m"
  by (rule ext) (simp add: token_of_def)

lemma c_str_no_nul: "CHR 0x00 \<notin> set s \<Longrightarrow> c_str s = s"
  by (auto simp: c_str_def takeWhile_eq_all_conv)

lemma print_ids_c_str:
  "snd (print_ids m xs) = concat (map (\<lambda>i. c_str (token_of m i)) (filter (\<lambda>i. i \<noteq> 0) xs))"
proof (induction xs arbitrary: m)
  case Nil
  show ?case by simp
next
  case (Cons i xs)
  show ?case
  proof (cases "i = 0")
    case True
    with Cons show ?thesis by simp
  next
    case False
    show ?thesis
    proof (cases "m i")
      case None
      have "snd (print_ids m (i # xs)) = snd (print_ids (m(i \<mapsto> [])) xs)"
        using False None by simp
      also have "\<dots> = concat (map (\<lambda>i. c_str (token_of m i)) (filter (\<lambda>i. i \<noteq> 0) xs))"
        by (simp only: Cons token_of_insert_empty [of m i, OF None])
      also have "\<dots> = concat (map (\<lambda>i. c_str (token_of m i)) (filter (\<lambda>i. i \<noteq> 0) (i # xs)))"
        using False None by (simp add: token_of_def c_str_def)
      finally show ?thesis .
    next
      case (Some tok)
      with False Cons [of m] show ?thesis
        by (cases "print_ids m xs") (simp add: token_of_def)
    qed
  qed
qed

lemma print_ids_text:
  assumes "nul_free m"
  shows "snd (print_ids m xs) = spec_rendered_text m xs"
proof -
  have "c_str (token_of m i) = token_of m i" for i
    using assms by (cases "m i") (auto simp: token_of_def nul_free_def c_str_def intro: c_str_no_nul ranI)
  then show ?thesis
    by (simp add: print_ids_c_str spec_rendered_text_def)
qed

lemma print_ids_dom:
  "dom (fst (print_ids m xs)) = dom m \<union> {i \<in> set xs. i \<noteq> 0}"
proof (induction xs arbitrary: m)
  case Nil
  show ?case by simp
next
  case (Cons i xs)
  show ?case
  proof (cases "m i")
    case None
    show ?thesis
    proof (cases "i = 0")
      case True
      then show ?thesis using Cons [of m] by auto
    next
      case False
      have "dom (fst (print_ids m (i # xs))) = dom (fst (print_ids (m(i \<mapsto> [])) xs))"
        using None False by simp
      also have "\<dots> = dom (m(i \<mapsto> [])) \<union> {j \<in> set xs. j \<noteq> 0}"
        by (rule Cons)
      also have "\<dots> = dom m \<union> {j \<in> set (i # xs). j \<noteq> 0}"
        using False by auto
      finally show ?thesis .
    qed
  next
    case (Some tok)
    then show ?thesis using Cons [of m] by (auto simp: split_beta)
  qed
qed

lemma print_ids_vocab:
  "\<forall>i \<in> set xs. i \<noteq> 0 \<longrightarrow> i \<in> dom m \<Longrightarrow> fst (print_ids m xs) = m"
proof (induction xs)
  case Nil
  show ?case by simp
next
  case (Cons i xs)
  then have "fst (print_ids m xs) = m" by simp
  with Cons.prems show ?case
    by (cases "print_ids m xs") auto
qed

lemma argmax_scan_bound: "idx < i \<Longrightarrow> argmax_scan vmax veq vs i mx idx < i + length vs"
proof (induction vs arbitrary: i mx idx)
  case Nil
  then show ?case by simp
next
  case (Cons v vs)
  have "argmax_scan vmax veq vs (Suc i) (vmax mx v) i < Suc i + length vs"
    by (rule Cons.IH) simp
  moreover have "argmax_scan vmax veq vs (Suc i) (vmax mx v) idx < Suc i + length vs"
    by (rule Cons.IH) (use Cons.prems in simp)
  ultimately show ?case by (simp add: Let_def)
qed

lemma argmax_row_bound: "row \<noteq> [] \<Longrightarrow> argmax_row vmax veq ninf row < length row"
proof (cases row)
  case Nil
  then show "row \<noteq> [] \<Longrightarrow> ?thesis" by simp
next
  case (Cons v vs)
  show ?thesis
    using argmax_scan_bound [of 0 "Suc 0" vmax veq vs] by (simp add: argmax_row_def Cons Let_def)
qed

lemma decode_ok_shape:
  assumes d: "sense_voice_decode_internal fl eng ctx state n = Inr r" and ok: "ok r"
    and w: "model_tensor (ctc_out_linear_weight (model ctx))"
    and bi: "model_tensor (ctc_out_linear_bias (model ctx))"
    and nw: "tname (ctc_out_linear_weight (model ctx)) \<noteq> ''encoder_out''"
  shows "ggml_nelements (graph_input state) * 4 \<le> ggml_nbytes (graph_input state) \<and>
         (\<exists>st1 gf. sense_voice_build_graph_ctc_decoder fl ctx state = Inr (st1, gf) \<and>
            ggml_graph_get_tensor gf ''encoder_out'' = Some (graph_input state)) \<and>
         ids (state_out r) = map (out_data eng) [0 ..< nat (ne1 (encoder_out state))] \<and>
         sched_log (sched (state_out r)) = sched_log (sched state) @
           [Ev_alloc_graph,
            Ev_tensor_set (addr (graph_input state)) (addr (encoder_out state)) 0
              (ggml_nelements (graph_input state) * 4),
            Ev_graph_compute, Ev_reset]"
proof -
  let ?w = "ctc_out_linear_weight (model ctx)"
  from d obtain st1 gf where b: "sense_voice_build_graph_ctc_decoder fl ctx state = Inr (st1, gf)"
    by (auto simp: sense_voice_decode_internal_def split: sum.splits)
  have "GGML_USE_METAL fl \<longrightarrow> pad_fallback ?w 32 = Some True"
    using build_split_fails [OF w bi, of fl state "(st1, gf)"] b pad_fallback_32 [of ?w] by blast
  then have "ggml_mul_mat_macro fl \<lparr>n_objects = 2, inputs = [Ctx_obj 1], outputs = []\<rparr> ?w (graph_input state) =
          ggml_mul_mat \<lparr>n_objects = 2, inputs = [Ctx_obj 1], outputs = []\<rparr> ?w (graph_input state)"
    by (auto simp: ggml_mul_mat_macro_def ggml_mul_mat_pad_def)
  from build_direct [OF b w bi this] obtain mm ad sm am where
    g: "nodes gf = [mm, ad, sm, am]" "ne0 am = ne1 (encoder_out state)"
    and l: "leafs gf = [?w, graph_input state] \<or> leafs gf = [?w, graph_input state, ctc_out_linear_bias (model ctx)]"
    by metis
  have gt: "ggml_graph_get_tensor gf ''encoder_out'' = Some (graph_input state)"
    using l nw by (auto simp: ggml_graph_get_tensor_def graph_input_sel)
  from d ok have "ggml_nelements (graph_input state) * 4 \<le> ggml_nbytes (graph_input state) \<and>
         ids (state_out r) = map (out_data eng) [0 ..< nat (ne1 (encoder_out state))] \<and>
         sched_log (sched (state_out r)) = sched_log (sched state) @
           [Ev_alloc_graph,
            Ev_tensor_set (addr (graph_input state)) (addr (encoder_out state)) 0
              (ggml_nelements (graph_input state) * 4),
            Ev_graph_compute, Ev_reset]"
    unfolding decode_unfold [OF b] gt using g build_meta_only [OF b]
    by (auto simp: Let_def split: if_splits)
  with b gt show ?thesis by blast
qed

lemma build_ignores_vocab:
  "sense_voice_build_graph_ctc_decoder fl (c\<lparr>vocab := v\<rparr>) s = sense_voice_build_graph_ctc_decoder fl c s"
proof -
  have m: "model (c\<lparr>vocab := v\<rparr>) = model c" by simp
  show ?thesis unfolding sense_voice_build_graph_ctc_decoder_def m ..
qed

lemma ex_decode_ok:
  assumes ty: "4 \<le> ggml_type_size ty"
    and E: "alloc_ok E" "compute_status E = GGML_STATUS_SUCCESS"
  shows "\<exists>r. sense_voice_decode_internal fl_cpu E ((ex_ctx 512)\<lparr>vocab := v\<rparr>) (ex_state 512 ty) 4 = Inr r \<and> ok r"
proof -
  let ?C = "(ex_ctx 512)\<lparr>vocab := v\<rparr>" and ?S = "ex_state 512 ty"
  obtain st1 gf where b: "sense_voice_build_graph_ctc_decoder fl_cpu ?C ?S = Inr (st1, gf)"
    using ex_build_cpu_512 [of ty] by (auto simp: build_ignores_vocab)
  have mt: "model_tensor (ctc_out_linear_weight (model ?C))" "model_tensor (ctc_out_linear_bias (model ?C))"
    using ex_model_tensors [of 512] by simp_all
  have d: "ggml_mul_mat_macro fl_cpu \<lparr>n_objects = 2, inputs = [Ctx_obj 1], outputs = []\<rparr>
             (ctc_out_linear_weight (model ?C)) (graph_input ?S) =
          ggml_mul_mat  \<lparr>n_objects = 2, inputs = [Ctx_obj 1], outputs = []\<rparr>
             (ctc_out_linear_weight (model ?C)) (graph_input ?S)"
    by (simp add: ggml_mul_mat_macro_def fl_cpu_def)
  from build_direct [OF b mt d] obtain mm ad sm am where
    g: "nodes gf = [mm, ad, sm, am]"
       "leafs gf = [ctc_out_linear_weight (model ?C), graph_input ?S, ctc_out_linear_bias (model ?C)]"
    by (auto simp: ex_defs Let_def)
  have gt: "ggml_graph_get_tensor gf ''encoder_out'' = Some (graph_input ?S)"
    by (simp add: ggml_graph_get_tensor_def g graph_input_sel) (simp add: ex_defs Let_def)
  have sz: "ggml_nelements (graph_input ?S) * 4 \<le> ggml_nbytes (graph_input ?S)"
    using ty by (simp add: graph_input_sel ggml_nelements_def) (simp add: ex_defs Let_def)
  show ?thesis
    unfolding decode_unfold [OF b] using gt sz g(1) E
    by (simp add: Let_def)
qed

lemma ex_engine_ok: "alloc_ok ex_engine" "compute_status ex_engine = GGML_STATUS_SUCCESS"
  by (simp_all add: ex_engine_def)

lemma ex_names:
  "tname (ctc_out_linear_weight (model (ex_ctx h))) \<noteq> ''encoder_out''"
  by (simp add: ex_defs Let_def)

lemma ex_dims:
  "0 \<le> ne0 (encoder_out (ex_state 512 ty))" "0 \<le> ne1 (encoder_out (ex_state 512 ty))"
  "nat (ne1 (encoder_out (ex_state 512 ty))) = 5"
  "nat (ne1 (ctc_out_linear_weight (model ((ex_ctx 512)\<lparr>vocab := v\<rparr>)))) = 8"
  by (simp_all add: ex_defs Let_def)


lemma decode_ok_printed:
  assumes d: "sense_voice_decode_internal fl eng ctx state n = Inr r" and ok: "ok r"
  shows "printed r = snd (print_ids (id_to_token (vocab ctx)) (ids (state_out r))) @ [CHR 0x0A] \<and>
         ctx_out r = ctx\<lparr>vocab := (vocab ctx)\<lparr>id_to_token :=
            fst (print_ids (id_to_token (vocab ctx)) (ids (state_out r)))\<rparr>\<rparr>"
proof -
  from d obtain st1 gf where b: "sense_voice_build_graph_ctc_decoder fl ctx state = Inr (st1, gf)"
    by (auto simp: sense_voice_decode_internal_def split: sum.splits)
  from d ok show ?thesis
    unfolding decode_unfold [OF b]
    by (auto simp: Let_def split: if_splits option.splits)
qed

lemma upt_0_5: "[0 ..< 5] = [0, 1, 2, 3, 4 :: nat]"
  by code_simp

lemma ex_ids:
  assumes "sense_voice_decode_internal fl_cpu E ((ex_ctx 512)\<lparr>vocab := v\<rparr>) (ex_state 512 ty) 4 = Inr r" "ok r"
  shows "ids (state_out r) = map (out_data E) [0, 1, 2, 3, 4]"
proof -
  have mt: "model_tensor (ctc_out_linear_weight (model ((ex_ctx 512)\<lparr>vocab := v\<rparr>)))"
    "model_tensor (ctc_out_linear_bias (model ((ex_ctx 512)\<lparr>vocab := v\<rparr>)))"
    "tname (ctc_out_linear_weight (model ((ex_ctx 512)\<lparr>vocab := v\<rparr>))) \<noteq> ''encoder_out''"
    using ex_model_tensors [of 512] ex_names [of 512] by simp_all
  from decode_ok_shape [OF assms mt]
  have "ids (state_out r) = map (out_data E) [0 ..< nat (ne1 (encoder_out (ex_state 512 ty)))]"
    by blast
  then show ?thesis
    by (simp add: ex_dims upt_0_5)
qed

lemma ex_get_tensor:
  assumes b: "sense_voice_build_graph_ctc_decoder fl_cpu (ex_ctx 512) (ex_state 512 ty) = Inr (st1, gf)"
  shows "ggml_graph_get_tensor gf ''encoder_out'' = Some (graph_input (ex_state 512 ty))"
    and "\<exists>mm ad sm am. nodes gf = [mm, ad, sm, am] \<and> src am = [sm] \<and> ne0 sm = 8 \<and> ne0 am = 5"
proof -
  let ?S = "ex_state 512 ty"
  have d: "ggml_mul_mat_macro fl_cpu \<lparr>n_objects = 2, inputs = [Ctx_obj 1], outputs = []\<rparr>
             (ctc_out_linear_weight (model (ex_ctx 512))) (graph_input ?S) =
          ggml_mul_mat  \<lparr>n_objects = 2, inputs = [Ctx_obj 1], outputs = []\<rparr>
             (ctc_out_linear_weight (model (ex_ctx 512))) (graph_input ?S)"
    by (simp add: ggml_mul_mat_macro_def fl_cpu_def)
  from build_direct [OF b ex_model_tensors d] obtain mm ad sm am where
    g: "nodes gf = [mm, ad, sm, am]" "src am = [sm]"
       "ne0 sm = ne1 (ctc_out_linear_weight (model (ex_ctx 512)))" "ne0 am = ne1 (encoder_out ?S)"
    and l: "leafs gf = [ctc_out_linear_weight (model (ex_ctx 512)), graph_input ?S,
                    ctc_out_linear_bias (model (ex_ctx 512))]"
    by (auto simp: ex_defs Let_def)
  show "ggml_graph_get_tensor gf ''encoder_out'' = Some (graph_input ?S)"
    using ex_names [of 512] by (simp add: ggml_graph_get_tensor_def l graph_input_sel)
  from g show "\<exists>mm ad sm am. nodes gf = [mm, ad, sm, am] \<and> src am = [sm] \<and> ne0 sm = 8 \<and> ne0 am = 5"
    by (simp add: ex_defs Let_def)
qed

lemma ex_kernel_ids:
  "map (out_data ex_kernel_engine) [0, 1, 2, 3, 4] = [3, 1, 7, 5, 6]"
  unfolding ex_kernel_engine_def by code_simp

lemma ex_kernel_engine_ok:
  "alloc_ok ex_kernel_engine" "compute_status ex_kernel_engine = GGML_STATUS_SUCCESS"
  by (simp_all add: ex_kernel_engine_def ex_engine_def)

lemma ex_nul_free: "nul_free (id_to_token (vocab (ex_ctx h)))"
  by (auto simp: nul_free_def ran_def ex_ctx_def split: if_splits)

lemma int64_wrap_id: "- (2 ^ 63) \<le> x \<Longrightarrow> x < 2 ^ 63 \<Longrightarrow> int64_wrap x = x"
  by (simp add: int64_wrap_def)

subsection \<open>Values of products, sums and views\<close>
















section \<open>The claims\<close>

text \<open>
  C4. Whenever the guard of line 53 holds (dimension 0 of \<open>x\<close> is a multiple of \<open>pad\<close>,
  or dimension 0 divided by \<open>pad\<close> is below 8; both are C's \<open>%\<close> and \<open>/\<close>, which
  have a value for a non-zero \<open>pad\<close> and a dimension that is not negative),
  \<open>ggml_mul_mat_pad\<close> is exactly the single direct \<open>ggml_mul_mat\<close>; where the guard's
  division traps, nothing is multiplied at all. In particular a zero remainder takes the
  fallback, and when the split is taken the second product is the product of two views
  whose dimension 0 is the non-zero remainder.
\<close>

theorem mul_mat_pad_fallback:
  "(pad_fallback x pad = Some True \<longrightarrow> ggml_mul_mat_pad ctx x y pad = ggml_mul_mat ctx x y) \<and>
   (pad \<noteq> 0 \<and> 0 \<le> ne0 x \<and> (c_mod (ne0 x) pad = 0 \<or> c_div (ne0 x) pad < 8) \<longrightarrow>
      ggml_mul_mat_pad ctx x y pad = ggml_mul_mat ctx x y) \<and>
   (pad_fallback x pad = None \<longrightarrow> ggml_mul_mat_pad ctx x y pad = Inl Division_trap) \<and>
   (\<forall>c z. pad_fallback x pad = Some False \<and> ggml_mul_mat_pad ctx x y pad = Inr (c, z) \<longrightarrow>
      (\<exists>p0 p1 x1 y1. op z = GGML_OP_ADD \<and> src z = [p0, p1] \<and> op p1 = GGML_OP_MUL_MAT \<and>
         src p1 = [x1, y1] \<and> ne0 x1 = c_mod (ne0 x) pad \<and> ne0 x1 \<noteq> 0 \<and> ne0 y1 \<noteq> 0))"
proof (intro conjI allI impI)
  assume "pad_fallback x pad = Some True"
  then show "ggml_mul_mat_pad ctx x y pad = ggml_mul_mat ctx x y"
    by (simp add: ggml_mul_mat_pad_def)
next
  assume "pad \<noteq> 0 \<and> 0 \<le> ne0 x \<and> (c_mod (ne0 x) pad = 0 \<or> c_div (ne0 x) pad < 8)"
  then have "pad_fallback x pad = Some True"
    by (auto simp: pad_fallback_def n_pad_req_def c_div_traps_def)
  then show "ggml_mul_mat_pad ctx x y pad = ggml_mul_mat ctx x y"
    by (simp add: ggml_mul_mat_pad_def)
next
  assume "pad_fallback x pad = None"
  then show "ggml_mul_mat_pad ctx x y pad = Inl Division_trap"
    by (simp add: ggml_mul_mat_pad_def)
next
  fix c z
  assume a: "pad_fallback x pad = Some False \<and> ggml_mul_mat_pad ctx x y pad = Inr (c, z)"
  then have rem: "c_mod (ne0 x) pad \<noteq> 0"
    by (auto simp: pad_fallback_def split: if_splits)
  from a show "\<exists>p0 p1 x1 y1. op z = GGML_OP_ADD \<and> src z = [p0, p1] \<and> op p1 = GGML_OP_MUL_MAT \<and>
         src p1 = [x1, y1] \<and> ne0 x1 = c_mod (ne0 x) pad \<and> ne0 x1 \<noteq> 0 \<and> ne0 y1 \<noteq> 0"
    using rem
    by (auto simp: ggml_mul_mat_pad_def ggml_view_3d_def ggml_mul_mat_def ggml_add_def
        ggml_new_tensor_def ggml_can_mul_mat_def Let_def
        split: if_splits option.splits bool.splits)
qed

theorem mul_mat_pad_fallback_witness:
  "(32::int) \<noteq> 0 \<and> 0 \<le> ne0 (ctc_out_linear_weight (model (ex_ctx 512))) \<and>
   c_mod (ne0 (ctc_out_linear_weight (model (ex_ctx 512)))) 32 = 0 \<and>
   pad_fallback (ctc_out_linear_weight (model (ex_ctx 512))) 32 = Some True \<and>
   ggml_mul_mat_pad ggml_init (ctc_out_linear_weight (model (ex_ctx 512))) (graph_input (ex_state 512 GGML_TYPE_F32)) 32 =
     ggml_mul_mat ggml_init (ctc_out_linear_weight (model (ex_ctx 512))) (graph_input (ex_state 512 GGML_TYPE_F32)) \<and>
   pad_fallback (ctc_out_linear_weight (model (ex_ctx 512))) 0 = None \<and>
   ggml_mul_mat_pad ggml_init (ctc_out_linear_weight (model (ex_ctx 512))) (graph_input (ex_state 512 GGML_TYPE_F32)) 0 =
     Inl Division_trap \<and>
   pad_fallback (ctc_out_linear_weight (model (ex_ctx 257))) 32 = Some False \<and>
   (\<exists>c z p0 p1 x1 y1.
      ggml_mul_mat_pad ggml_init (ctc_out_linear_weight (model (ex_ctx 257))) (graph_input (ex_state 257 GGML_TYPE_F32)) 32 = Inr (c, z) \<and>
      src z = [p0, p1] \<and> src p1 = [x1, y1] \<and> ne0 x1 = 1 \<and> ne0 y1 \<noteq> 0)"
proof -
  let ?w = "ctc_out_linear_weight (model (ex_ctx 512))" and ?e = "graph_input (ex_state 512 GGML_TYPE_F32)"
  let ?w' = "ctc_out_linear_weight (model (ex_ctx 257))" and ?e' = "graph_input (ex_state 257 GGML_TYPE_F32)"
  have f: "pad_fallback ?w 32 = Some True"
    by (simp add: ex_defs pad_fallback_def c_div_traps_def c_mod_def c_div_def n_pad_req_def Let_def)
  have f': "pad_fallback ?w' 32 = Some False"
    by (simp add: ex_defs pad_fallback_def c_div_traps_def c_mod_def c_div_def n_pad_req_def Let_def)
  have r: "c_mod (ne0 ?w') 32 = 1"
    by (simp add: ex_defs c_mod_def c_div_def Let_def)
  obtain c z where z: "ggml_mul_mat_pad ggml_init ?w' ?e' 32 = Inr (c, z)"
    by (simp add: ex_defs build_defs graph_input_def)
  have g: "(32::int) \<noteq> 0" "0 \<le> ne0 ?w" "c_mod (ne0 ?w) 32 = 0"
    by (simp_all add: ex_defs c_mod_def c_div_def Let_def)
  from mul_mat_pad_fallback [of ?w 32 ggml_init ?e] g
  have "ggml_mul_mat_pad ggml_init ?w ?e 32 = ggml_mul_mat ggml_init ?w ?e" by blast
  moreover from mul_mat_pad_fallback [of ?w' 32 ggml_init ?e'] f' z r
  have "\<exists>p0 p1 x1 y1. src z = [p0, p1] \<and> src p1 = [x1, y1] \<and> ne0 x1 = 1 \<and> ne0 y1 \<noteq> 0"
    by (metis (no_types, lifting))
  moreover have t: "pad_fallback ?w 0 = None"
    by (simp add: pad_fallback_def c_div_traps_def)
  moreover from mul_mat_pad_fallback [of ?w 0 ggml_init ?e] t
  have "ggml_mul_mat_pad ggml_init ?w ?e 0 = Inl Division_trap" by blast
  ultimately show ?thesis using f f' z g by blast
qed


text \<open>
  C5. The claim holds for every graph the builder returns without Metal; with
  \<open>GGML_USE_METAL\<close> the code misses it. For a model of hidden size 257 (not a multiple of
  32, at least 8 times 32) the macro of lines 70-72 makes the projection four views, two
  products and a sum, ten nodes with the rest of the pipeline, and the construction aborts
  on the capacity of 8 given at line 87. On the same model and session the build without
  Metal returns the graph of exactly the four nodes projection, bias add, softmax and
  arg-max, the arg-max node last.
\<close>

theorem ctc_graph_metal_split_aborts:
  "sense_voice_build_graph_ctc_decoder fl_metal (ex_ctx 257) (ex_state 257 GGML_TYPE_F32) = Inl Assert_failed \<and>
   (\<exists>st gf. sense_voice_build_graph_ctc_decoder fl_cpu (ex_ctx 257) (ex_state 257 GGML_TYPE_F32) = Inr (st, gf) \<and>
      map op (nodes gf) = [GGML_OP_MUL_MAT, GGML_OP_ADD, GGML_OP_SOFT_MAX, GGML_OP_ARGMAX] \<and>
      length (nodes gf) \<le> SENSEVOICE_DECODER_MAX_NODES \<and>
      op (last (nodes gf)) = GGML_OP_ARGMAX \<and>
      addr (last (nodes gf)) \<in> set (outputs (meta st)) \<and>
      addr (nodes gf ! 2) \<in> set (outputs (meta st)))"
proof -
  have m: "sense_voice_build_graph_ctc_decoder fl_metal (ex_ctx 257) (ex_state 257 GGML_TYPE_F32) = Inl Assert_failed"
    by (simp add: ex_defs build_defs)
  obtain st gf where
    b: "sense_voice_build_graph_ctc_decoder fl_cpu (ex_ctx 257) (ex_state 257 GGML_TYPE_F32) = Inr (st, gf)"
    by (simp add: ex_defs build_defs)
  note f = build_returns_four_nodes [OF ex_model_tensors b]
  from f have "length (map op (nodes gf)) = 4" by simp
  then have l: "length (nodes gf) \<le> SENSEVOICE_DECODER_MAX_NODES"
    by (simp add: SENSEVOICE_DECODER_MAX_NODES_def)
  show ?thesis
  proof (rule conjI [OF m], intro exI conjI)
    show "sense_voice_build_graph_ctc_decoder fl_cpu (ex_ctx 257) (ex_state 257 GGML_TYPE_F32) = Inr (st, gf)"
      by (rule b)
  qed (use f l in simp_all)
qed


text \<open>
  C6. \<open>ggml_graph_compute_helper\<close> returns true exactly when the status of the
  synchronous execution is success (for an allocated graph: the backend's status), and
  whatever the status, the scheduler it leaves behind has been reset last.
\<close>

theorem compute_helper_status_and_reset:
  "fst (ggml_graph_compute_helper fl eng s g n) =
     (fst (ggml_backend_sched_graph_compute eng
             (s\<lparr>backends := set_all_backends fl n (backends s)\<rparr>) g) = GGML_STATUS_SUCCESS) \<and>
   (is_alloc s \<longrightarrow> fst (ggml_graph_compute_helper fl eng s g n) = (compute_status eng = GGML_STATUS_SUCCESS)) \<and>
   is_reset (snd (ggml_graph_compute_helper fl eng s g n)) \<and>
   \<not> is_alloc (snd (ggml_graph_compute_helper fl eng s g n)) \<and>
   last (sched_log (snd (ggml_graph_compute_helper fl eng s g n))) = Ev_reset"
  by (simp add: ggml_graph_compute_helper_def ggml_backend_sched_graph_compute_def
      ggml_backend_sched_reset_def ggml_backend_sched_alloc_graph_def Let_def split: prod.splits)

theorem compute_helper_witness:
  "is_alloc (ex_sched\<lparr>is_alloc := True\<rparr>) \<and>
   fst (ggml_graph_compute_helper fl_metal ex_engine (ex_sched\<lparr>is_alloc := True\<rparr>) ex_graph 4) \<and>
   is_reset (snd (ggml_graph_compute_helper fl_metal ex_engine (ex_sched\<lparr>is_alloc := True\<rparr>) ex_graph 4))"
proof -
  have a: "is_alloc (ex_sched\<lparr>is_alloc := True\<rparr>)" by simp
  have c: "compute_status ex_engine = GGML_STATUS_SUCCESS" by (simp add: ex_engine_def)
  note t = compute_helper_status_and_reset [of fl_metal ex_engine "ex_sched\<lparr>is_alloc := True\<rparr>" ex_graph 4]
  from t a c have "fst (ggml_graph_compute_helper fl_metal ex_engine (ex_sched\<lparr>is_alloc := True\<rparr>) ex_graph 4)"
    by blast
  moreover from t have "is_reset (snd (ggml_graph_compute_helper fl_metal ex_engine (ex_sched\<lparr>is_alloc := True\<rparr>) ex_graph 4))"
    by blast
  ultimately show ?thesis using a by blast
qed


text \<open>
  C2. A decode call that returns after the graph allocation failed or the execution
  reported a status other than success returns false, leaves the id buffer as it was and
  prints nothing. Such a call does return: when the allocation fails, and when the
  allocation succeeds, the input is copied and the execution then reports a status other
  than success.
\<close>

theorem decode_failure_keeps_ids:
  "(sense_voice_decode_internal fl eng ctx state n = Inr r \<and>
      (\<not> alloc_ok eng \<or> compute_status eng \<noteq> GGML_STATUS_SUCCESS) \<longrightarrow>
        \<not> ok r \<and> ids (state_out r) = ids state \<and> printed r = []) \<and>
   (sense_voice_build_graph_ctc_decoder fl ctx state = Inr b \<and> \<not> alloc_ok eng \<longrightarrow>
      (\<exists>r. sense_voice_decode_internal fl eng ctx state n = Inr r \<and>
           \<not> ok r \<and> ids (state_out r) = ids state)) \<and>
   (sense_voice_build_graph_ctc_decoder fl ctx state = Inr (st1, gf) \<and> alloc_ok eng \<and>
    ggml_graph_get_tensor gf ''encoder_out'' = Some enc \<and>
    ggml_nelements enc * 4 \<le> ggml_nbytes enc \<and>
    compute_status eng \<noteq> GGML_STATUS_SUCCESS \<longrightarrow>
      (\<exists>r. sense_voice_decode_internal fl eng ctx state n = Inr r \<and>
           \<not> ok r \<and> ids (state_out r) = ids state))"
proof -
  have keep: "\<not> ok r \<and> ids (state_out r) = ids state \<and> printed r = []"
    if a: "sense_voice_decode_internal fl eng ctx state n = Inr r"
      "\<not> alloc_ok eng \<or> compute_status eng \<noteq> GGML_STATUS_SUCCESS" for r
  proof -
    from a obtain s1 g where b: "sense_voice_build_graph_ctc_decoder fl ctx state = Inr (s1, g)"
      by (auto simp: sense_voice_decode_internal_def split: sum.splits)
    from a show ?thesis
      unfolding decode_unfold [OF b] using build_meta_only [OF b]
      by (auto simp: Let_def split: if_splits option.splits)
  qed
  have al: "\<exists>r. sense_voice_decode_internal fl eng ctx state n = Inr r"
    if "sense_voice_build_graph_ctc_decoder fl ctx state = Inr b" "\<not> alloc_ok eng"
  proof -
    from that have "sense_voice_build_graph_ctc_decoder fl ctx state = Inr (fst b, snd b)" by simp
    from decode_unfold [OF this] that show ?thesis by simp
  qed
  have ex: "\<exists>r. sense_voice_decode_internal fl eng ctx state n = Inr r"
    if "sense_voice_build_graph_ctc_decoder fl ctx state = Inr (st1, gf)" "alloc_ok eng"
      "ggml_graph_get_tensor gf ''encoder_out'' = Some enc"
      "ggml_nelements enc * 4 \<le> ggml_nbytes enc"
      "compute_status eng \<noteq> GGML_STATUS_SUCCESS"
    using decode_unfold [OF that(1)] that(2-5) by (simp add: Let_def)
  from keep al ex show ?thesis by blast
qed

theorem decode_failure_keeps_ids_witness:
  "(\<exists>r. sense_voice_decode_internal fl_cpu (ex_engine\<lparr>alloc_ok := False\<rparr>) (ex_ctx 512)
          (ex_state 512 GGML_TYPE_F32) 4 = Inr r \<and>
       \<not> alloc_ok (ex_engine\<lparr>alloc_ok := False\<rparr>) \<and> \<not> ok r \<and> ids (state_out r) = [1, 2, 3]) \<and>
   (\<exists>r. sense_voice_decode_internal fl_cpu (ex_engine\<lparr>compute_status := GGML_STATUS_FAILED\<rparr>) (ex_ctx 512)
          (ex_state 512 GGML_TYPE_F32) 4 = Inr r \<and>
       alloc_ok (ex_engine\<lparr>compute_status := GGML_STATUS_FAILED\<rparr>) \<and>
       compute_status (ex_engine\<lparr>compute_status := GGML_STATUS_FAILED\<rparr>) \<noteq> GGML_STATUS_SUCCESS \<and>
       \<not> ok r \<and> ids (state_out r) = [1, 2, 3])"
proof -
  let ?A = "ex_engine\<lparr>alloc_ok := False\<rparr>" and ?F = "ex_engine\<lparr>compute_status := GGML_STATUS_FAILED\<rparr>"
  let ?S = "ex_state 512 GGML_TYPE_F32"
  obtain st1 gf where b: "sense_voice_build_graph_ctc_decoder fl_cpu (ex_ctx 512) ?S = Inr (st1, gf)"
    using ex_build_cpu_512 [of GGML_TYPE_F32] by auto
  have a: "\<not> alloc_ok ?A" by simp
  have f: "alloc_ok ?F" "compute_status ?F \<noteq> GGML_STATUS_SUCCESS" by (simp_all add: ex_engine_def)
  have sz: "ggml_nelements (graph_input ?S) * 4 \<le> ggml_nbytes (graph_input ?S)"
    by (simp add: graph_input_sel ggml_nelements_def) (simp add: ex_defs Let_def ggml_type_size_def)
  have i: "ids ?S = [1, 2, 3]" by (simp add: ex_state_def)
  from decode_failure_keeps_ids [of fl_cpu ?A "ex_ctx 512" ?S 4 _ "(st1, gf)"] b a
  have "\<exists>r. sense_voice_decode_internal fl_cpu ?A (ex_ctx 512) ?S 4 = Inr r \<and>
          \<not> ok r \<and> ids (state_out r) = ids ?S"
    by blast
  moreover
  from decode_failure_keeps_ids [of fl_cpu ?F "ex_ctx 512" ?S 4 _ _ st1 gf "graph_input ?S"]
    b f ex_get_tensor(1) [OF b] sz
  have "\<exists>r. sense_voice_decode_internal fl_cpu ?F (ex_ctx 512) ?S 4 = Inr r \<and>
          \<not> ok r \<and> ids (state_out r) = ids ?S"
    by blast
  ultimately show ?thesis using a f unfolding i by blast
qed


text \<open>
  C1, as amended. A call that returns true has added the elapsed time, the second
  reading of the clock minus the first, to \<open>t_decode_us\<close> in 64-bit arithmetic. When
  neither the difference nor the sum leaves the 64-bit range, the counter grows by exactly
  the elapsed time: strictly when the clock advanced, and it does not shrink while the
  clock is monotonic. A call that returns false has returned before line 187 and leaves
  the counter as it was.
\<close>

theorem decode_timer_success_only:
  assumes "sense_voice_decode_internal fl eng ctx state n = Inr r"
  shows "t_decode_us (state_out r) =
           (if ok r then int64_wrap (t_decode_us state + int64_wrap (time_end eng - time_start eng))
            else t_decode_us state) \<and>
         (ok r \<and> time_start eng \<le> time_end eng \<and> time_end eng - time_start eng < 2 ^ 63 \<and>
          - (2 ^ 63) \<le> t_decode_us state \<and>
          t_decode_us state + (time_end eng - time_start eng) < 2 ^ 63 \<longrightarrow>
            t_decode_us (state_out r) = t_decode_us state + (time_end eng - time_start eng) \<and>
            t_decode_us state \<le> t_decode_us (state_out r) \<and>
            (time_start eng < time_end eng \<longrightarrow> t_decode_us state < t_decode_us (state_out r)))"
proof -
  from assms obtain st1 gf where b: "sense_voice_build_graph_ctc_decoder fl ctx state = Inr (st1, gf)"
    by (auto simp: sense_voice_decode_internal_def split: sum.splits)
  have t: "t_decode_us (state_out r) =
           (if ok r then int64_wrap (t_decode_us state + int64_wrap (time_end eng - time_start eng))
            else t_decode_us state)"
    using assms build_meta_only [OF b] unfolding decode_unfold [OF b]
    by (auto simp: Let_def split: if_splits option.splits)
  have "t_decode_us (state_out r) = t_decode_us state + (time_end eng - time_start eng)"
    if "ok r" "time_start eng \<le> time_end eng" "time_end eng - time_start eng < 2 ^ 63"
      "- (2 ^ 63) \<le> t_decode_us state"
      "t_decode_us state + (time_end eng - time_start eng) < 2 ^ 63"
  proof -
    have "int64_wrap (time_end eng - time_start eng) = time_end eng - time_start eng"
      using that by (intro int64_wrap_id) simp_all
    moreover have "int64_wrap (t_decode_us state + (time_end eng - time_start eng)) =
        t_decode_us state + (time_end eng - time_start eng)"
      using that by (intro int64_wrap_id) simp_all
    ultimately show ?thesis using t that(1) by simp
  qed
  with t show ?thesis by auto
qed

theorem decode_timer_success_only_witness:
  "\<exists>r. sense_voice_decode_internal fl_cpu ex_engine (ex_ctx 512) (ex_state 512 GGML_TYPE_F32) 4 = Inr r \<and>
       ok r \<and> time_start ex_engine < time_end ex_engine \<and>
       t_decode_us (ex_state 512 GGML_TYPE_F32) = 100 \<and> t_decode_us (state_out r) = 350"
proof -
  let ?S = "ex_state 512 GGML_TYPE_F32"
  have C: "(ex_ctx 512)\<lparr>vocab := vocab (ex_ctx 512)\<rparr> = ex_ctx 512" by simp
  obtain r where r: "sense_voice_decode_internal fl_cpu ex_engine (ex_ctx 512) ?S 4 = Inr r" "ok r"
    using ex_decode_ok [of GGML_TYPE_F32 ex_engine "vocab (ex_ctx 512)"] ex_engine_ok unfolding C
    by (auto simp: ggml_type_size_def)
  have h: "time_start ex_engine \<le> time_end ex_engine" "time_end ex_engine - time_start ex_engine < 2 ^ 63"
    "- (2 ^ 63) \<le> t_decode_us ?S" "t_decode_us ?S + (time_end ex_engine - time_start ex_engine) < 2 ^ 63"
    "time_start ex_engine < time_end ex_engine" "t_decode_us ?S = 100"
    by (simp_all add: ex_engine_def ex_state_def)
  from decode_timer_success_only [OF r(1)] r(2) h
  have "t_decode_us (state_out r) = t_decode_us ?S + (time_end ex_engine - time_start ex_engine)"
    by blast
  then have "t_decode_us (state_out r) = 350"
    by (simp add: ex_engine_def ex_state_def)
  with r h show ?thesis by blast
qed

text \<open>
  C1 as stated fails: when the allocation fails the call returns false at line 157 and
  the counter is unchanged, although the clock has advanced.
\<close>

theorem decode_timer_counterexample:
  "\<exists>r. sense_voice_decode_internal fl_cpu (ex_engine\<lparr>alloc_ok := False\<rparr>) (ex_ctx 512)
          (ex_state 512 GGML_TYPE_F32) 4 = Inr r \<and>
       time_start (ex_engine\<lparr>alloc_ok := False\<rparr>) < time_end (ex_engine\<lparr>alloc_ok := False\<rparr>) \<and>
       \<not> ok r \<and> t_decode_us (state_out r) = t_decode_us (ex_state 512 GGML_TYPE_F32)"
proof -
  obtain st1 gf where b: "sense_voice_build_graph_ctc_decoder fl_cpu (ex_ctx 512) (ex_state 512 GGML_TYPE_F32) = Inr (st1, gf)"
    using ex_build_cpu_512 [of GGML_TYPE_F32] by auto
  show ?thesis
    unfolding decode_unfold [OF b] using build_meta_only [OF b]
    by (simp add: ex_engine_def)
qed






text \<open>
  C8. The text a successful call prints is, token by token, what \<open>printf("%s")\<close> shows
  of the tokens of the ids other than 0, in order, followed by the newline of line 182.
  For a vocabulary whose tokens hold no NUL byte this is the spec's rendering of the new
  id buffer, the tokens of the non-zero ids concatenated in order; for the ids
  0, 5, 0, 7, 0 and the vocabulary 5: A, 7: B the tokens printed are AB.
\<close>

theorem rendered_text_skips_blank:
  "(sense_voice_decode_internal fl eng ctx state n = Inr r \<and> ok r \<longrightarrow>
      printed r =
        concat (map (\<lambda>i. c_str (token_of (id_to_token (vocab ctx)) i))
                  (filter (\<lambda>i. i \<noteq> 0) (ids (state_out r)))) @ [CHR 0x0A]) \<and>
   (sense_voice_decode_internal fl eng ctx state n = Inr r \<and> ok r \<and>
    nul_free (id_to_token (vocab ctx)) \<longrightarrow>
      printed r = spec_rendered_text (id_to_token (vocab ctx)) (ids (state_out r)) @ [CHR 0x0A]) \<and>
   (nul_free m \<longrightarrow>
      snd (print_ids m xs) = concat (map (token_of m) (filter (\<lambda>i. i \<noteq> 0) xs))) \<and>
   snd (print_ids [5 \<mapsto> ''A'', 7 \<mapsto> ''B''] [0, 5, 0, 7, 0]) = ''AB''"
proof -
  have p: "printed r = snd (print_ids (id_to_token (vocab ctx)) (ids (state_out r))) @ [CHR 0x0A]"
    if "sense_voice_decode_internal fl eng ctx state n = Inr r" "ok r"
    using decode_ok_printed [OF that] by simp
  have a: "printed r =
        concat (map (\<lambda>i. c_str (token_of (id_to_token (vocab ctx)) i))
                  (filter (\<lambda>i. i \<noteq> 0) (ids (state_out r)))) @ [CHR 0x0A]"
    if "sense_voice_decode_internal fl eng ctx state n = Inr r" "ok r"
    using p [OF that] by (simp add: print_ids_c_str)
  have b: "printed r = spec_rendered_text (id_to_token (vocab ctx)) (ids (state_out r)) @ [CHR 0x0A]"
    if "sense_voice_decode_internal fl eng ctx state n = Inr r" "ok r"
      "nul_free (id_to_token (vocab ctx))"
    using p [OF that(1,2)] print_ids_text [OF that(3)] by simp
  have c: "snd (print_ids m xs) = concat (map (token_of m) (filter (\<lambda>i. i \<noteq> 0) xs))"
    if "nul_free m"
    using print_ids_text [OF that] by (simp add: spec_rendered_text_def)
  have e: "snd (print_ids [5 \<mapsto> ''A'', 7 \<mapsto> ''B''] [0, 5, 0, 7, 0]) = ''AB''"
    by (simp add: c_str_def)
  from a b c e show ?thesis by blast
qed

theorem rendered_text_witness:
  "\<exists>r. sense_voice_decode_internal fl_cpu ex_engine (ex_ctx 512) (ex_state 512 GGML_TYPE_F32) 4 = Inr r \<and> ok r \<and>
       nul_free (id_to_token (vocab (ex_ctx 512))) \<and>
       ids (state_out r) = [0, 5, 0, 7, 0] \<and> printed r = ''AB'' @ [CHR 0x0A]"
proof -
  let ?S = "ex_state 512 GGML_TYPE_F32"
  have C: "(ex_ctx 512)\<lparr>vocab := vocab (ex_ctx 512)\<rparr> = ex_ctx 512" by simp
  obtain r where r: "sense_voice_decode_internal fl_cpu ex_engine (ex_ctx 512) ?S 4 = Inr r" "ok r"
    using ex_decode_ok [of GGML_TYPE_F32 ex_engine "vocab (ex_ctx 512)"] ex_engine_ok unfolding C
    by (auto simp: ggml_type_size_def)
  have i: "ids (state_out r) = [0, 5, 0, 7, 0]"
    using ex_ids [of ex_engine "vocab (ex_ctx 512)" GGML_TYPE_F32 r] r unfolding C
    by (simp add: ex_engine_def)
  note nf = ex_nul_free [of 512]
  from rendered_text_skips_blank [of fl_cpu ex_engine "ex_ctx 512" ?S 4 r] r nf
  have "printed r = spec_rendered_text (id_to_token (vocab (ex_ctx 512))) (ids (state_out r)) @ [CHR 0x0A]"
    by blast
  then have "printed r = ''AB'' @ [CHR 0x0A]"
    unfolding i by (simp add: spec_rendered_text_def token_of_def ex_ctx_def)
  with r i nf show ?thesis by blast
qed


text \<open>
  C9. Let the execution leave in the last node of the graph the code built what the
  arg-max kernel computes from the contents of that node's source, and let the vocabulary
  size, dimension 1 of the projection weight, be positive. Then every id a successful call
  stores lies in \<open>[0, vocabSize)\<close>: the graph's last node is the arg-max of the softmax
  node, whose rows have vocabulary-size entries. The lookup \<open>id_to_token[id]\<close> of a
  non-blank id never fails: it finds the entry or inserts an empty one, so the vocabulary
  afterwards has the entries it had and one for each non-blank id. If the vocabulary has
  an entry for each id below the vocabulary size, every lookup finds its entry and the
  vocabulary is returned unchanged.
\<close>

theorem argmax_ids_in_vocabulary:
  assumes d: "sense_voice_decode_internal fl eng ctx state n = Inr r" and ok: "ok r"
    and w: "model_tensor (ctc_out_linear_weight (model ctx))"
    and bi: "model_tensor (ctc_out_linear_bias (model ctx))"
    and nw: "tname (ctc_out_linear_weight (model ctx)) \<noteq> ''encoder_out''"
    and V: "0 < ne1 (ctc_out_linear_weight (model ctx))"
    and kern: "\<forall>st1 gf. sense_voice_build_graph_ctc_decoder fl ctx state = Inr (st1, gf) \<longrightarrow>
                 (\<forall>i < nat (ne0 (last (nodes gf))).
                    out_data eng i =
                      ggml_compute_forward_argmax vmax veq neg_inf contents (last (nodes gf)) i)"
  shows "(\<forall>i \<in> set (ids (state_out r)). 0 \<le> i \<and> i < ne1 (ctc_out_linear_weight (model ctx))) \<and>
         length (ids (state_out r)) = nat (ne1 (encoder_out state)) \<and>
         dom (id_to_token (vocab (ctx_out r))) =
           dom (id_to_token (vocab ctx)) \<union> {i \<in> set (ids (state_out r)). i \<noteq> 0} \<and>
         ((\<forall>k. 0 \<le> k \<and> k < ne1 (ctc_out_linear_weight (model ctx)) \<longrightarrow>
               k \<in> dom (id_to_token (vocab ctx))) \<longrightarrow>
            (\<forall>i \<in> set (ids (state_out r)). i \<noteq> 0 \<longrightarrow> i \<in> dom (id_to_token (vocab ctx))) \<and>
            ctx_out r = ctx)"
proof -
  let ?w = "ctc_out_linear_weight (model ctx)"
  let ?V = "ne1 ?w"
  let ?m = "id_to_token (vocab ctx)"
  from d obtain st1 gf where b: "sense_voice_build_graph_ctc_decoder fl ctx state = Inr (st1, gf)"
    by (auto simp: sense_voice_decode_internal_def split: sum.splits)
  have "GGML_USE_METAL fl \<longrightarrow> pad_fallback ?w 32 = Some True"
    using build_split_fails [OF w bi, of fl state "(st1, gf)"] b pad_fallback_32 [of ?w] by blast
  then have "ggml_mul_mat_macro fl \<lparr>n_objects = 2, inputs = [Ctx_obj 1], outputs = []\<rparr> ?w (graph_input state) =
          ggml_mul_mat \<lparr>n_objects = 2, inputs = [Ctx_obj 1], outputs = []\<rparr> ?w (graph_input state)"
    by (auto simp: ggml_mul_mat_macro_def ggml_mul_mat_pad_def)
  from build_direct [OF b w bi this] obtain mm ad sm am where
    g: "nodes gf = [mm, ad, sm, am]" "src am = [sm]" "ne0 sm = ?V" "ne0 am = ne1 (encoder_out state)"
    by blast
  from decode_ok_shape [OF d ok w bi nw]
  have i: "ids (state_out r) = map (out_data eng) [0 ..< nat (ne1 (encoder_out state))]"
    by blast
  have rng: "\<forall>i \<in> set (ids (state_out r)). 0 \<le> i \<and> i < ?V"
  proof
    fix x assume "x \<in> set (ids (state_out r))"
    then obtain k where k: "k < nat (ne1 (encoder_out state))" "x = out_data eng k"
      unfolding i by auto
    from kern b k(1) g have "out_data eng k = ggml_compute_forward_argmax vmax veq neg_inf contents am k"
      by simp
    then have x: "x = int (argmax_row vmax veq neg_inf (map (\<lambda>j. contents sm j k) [0 ..< nat ?V]))"
      using k(2) g by (simp add: ggml_compute_forward_argmax_def)
    have "map (\<lambda>j. contents sm j k) [0 ..< nat ?V] \<noteq> []" using V by simp
    from argmax_row_bound [OF this, of vmax veq neg_inf]
    have "argmax_row vmax veq neg_inf (map (\<lambda>j. contents sm j k) [0 ..< nat ?V]) < nat ?V"
      by simp
    with x show "0 \<le> x \<and> x < ?V" by simp
  qed
  have len: "length (ids (state_out r)) = nat (ne1 (encoder_out state))"
    unfolding i by simp
  note pr = decode_ok_printed [OF d ok]
  from pr have "id_to_token (vocab (ctx_out r)) = fst (print_ids ?m (ids (state_out r)))"
    by simp
  then have dm: "dom (id_to_token (vocab (ctx_out r))) = dom ?m \<union> {i \<in> set (ids (state_out r)). i \<noteq> 0}"
    by (simp only: print_ids_dom)
  have tb: "(\<forall>i \<in> set (ids (state_out r)). i \<noteq> 0 \<longrightarrow> i \<in> dom ?m) \<and> ctx_out r = ctx"
    if table: "\<forall>k. 0 \<le> k \<and> k < ?V \<longrightarrow> k \<in> dom ?m"
  proof -
    from rng table have dom: "\<forall>i \<in> set (ids (state_out r)). i \<noteq> 0 \<longrightarrow> i \<in> dom ?m"
      by blast
    from pr print_ids_vocab [OF dom] have "ctx_out r = ctx" by simp
    with dom show ?thesis by blast
  qed
  from rng len dm tb show ?thesis by blast
qed

theorem argmax_ids_witness:
  "\<exists>r. sense_voice_decode_internal fl_cpu ex_kernel_engine ((ex_ctx 512)\<lparr>vocab := \<lparr>id_to_token = ex_table\<rparr>\<rparr>)
          (ex_state 512 GGML_TYPE_F32) 4 = Inr r \<and> ok r \<and>
       ids (state_out r) = [3, 1, 7, 5, 6] \<and>
       (\<forall>i \<in> set (ids (state_out r)). 0 \<le> i \<and> i < 8) \<and>
       (\<forall>k. 0 \<le> k \<and> k < 8 \<longrightarrow> k \<in> dom ex_table) \<and>
       ctx_out r = (ex_ctx 512)\<lparr>vocab := \<lparr>id_to_token = ex_table\<rparr>\<rparr>"
proof -
  let ?v = "\<lparr>id_to_token = ex_table\<rparr>"
  let ?C = "(ex_ctx 512)\<lparr>vocab := ?v\<rparr>" and ?S = "ex_state 512 GGML_TYPE_F32"
  obtain r where r: "sense_voice_decode_internal fl_cpu ex_kernel_engine ?C ?S 4 = Inr r" "ok r"
    using ex_decode_ok [of GGML_TYPE_F32 ex_kernel_engine ?v] ex_kernel_engine_ok
    by (auto simp: ggml_type_size_def)
  have mt: "model_tensor (ctc_out_linear_weight (model ?C))"
    "model_tensor (ctc_out_linear_bias (model ?C))"
    "tname (ctc_out_linear_weight (model ?C)) \<noteq> ''encoder_out''"
    using ex_model_tensors [of 512] ex_names [of 512] by simp_all
  have V: "0 < ne1 (ctc_out_linear_weight (model ?C))"
    by (simp add: ex_defs Let_def)
  have kern: "\<forall>st1 gf. sense_voice_build_graph_ctc_decoder fl_cpu ?C ?S = Inr (st1, gf) \<longrightarrow>
                 (\<forall>i < nat (ne0 (last (nodes gf))).
                    out_data ex_kernel_engine i =
                      ggml_compute_forward_argmax max (=) 0 ex_contents (last (nodes gf)) i)"
  proof (intro allI impI)
    fix st1 gf i
    assume "sense_voice_build_graph_ctc_decoder fl_cpu ?C ?S = Inr (st1, gf)"
    then have "sense_voice_build_graph_ctc_decoder fl_cpu (ex_ctx 512) ?S = Inr (st1, gf)"
      by (simp add: build_ignores_vocab)
    from ex_get_tensor(2) [OF this] obtain mm ad sm am where
      "nodes gf = [mm, ad, sm, am]" "src am = [sm]" "ne0 sm = 8"
      by blast
    then show "out_data ex_kernel_engine i =
        ggml_compute_forward_argmax max (=) 0 ex_contents (last (nodes gf)) i"
      by (simp add: ggml_compute_forward_argmax_def ex_kernel_engine_def ex_contents_def)
  qed
  have table: "\<forall>k. 0 \<le> k \<and> k < ne1 (ctc_out_linear_weight (model ?C)) \<longrightarrow>
                 k \<in> dom (id_to_token (vocab ?C))"
    by (simp add: ex_table_def dom_def) (simp add: ex_defs Let_def)
  from argmax_ids_in_vocabulary [OF r mt V kern] table
  have "(\<forall>i \<in> set (ids (state_out r)). 0 \<le> i \<and> i < ne1 (ctc_out_linear_weight (model ?C))) \<and> ctx_out r = ?C"
    by blast
  moreover have v8: "ne1 (ctc_out_linear_weight (model ?C)) = 8"
    by (simp add: ex_defs Let_def)
  moreover have "\<forall>k. 0 \<le> k \<and> k < 8 \<longrightarrow> k \<in> dom ex_table"
    using table unfolding v8 by simp
  ultimately show ?thesis
    using r ex_ids [OF r] ex_kernel_ids by auto
qed










end
